theory Spec2Isabelle
  imports Complex_Main "HOL-Library.AList" "HOL-Library.Sublist"
begin

section \<open>JavaScript values used by the adapter\<close>

text \<open>
  A JavaScript string is modelled as an Isabelle \<open>string\<close>; one \<open>char\<close> stands for one
  UTF-16 code unit below 256, so \<open>length\<close> is the \<open>.length\<close> of the source.  A field
  declared with \<open>?\<close> (or \<open>| null\<close>) is an \<open>option\<close>: \<open>None\<close> is \<open>undefined\<close> or
  \<open>null\<close>.  A thrown exception is the left summand of a sum type.  The numbers inside a
  JSON value are never inspected by the adapter; integers stand for them.
\<close>

datatype json =
    JNull
  | JBool bool
  | JNum int
  | JStr string
  | JArr "json list"
  | JObj "(string \<times> json) list"

text \<open>What a \<open>throw\<close> carries: an \<open>Error\<close> object of some class with its message, or
  any other value, already rendered by \<open>String(error)\<close>.\<close>

datatype exn =
    SyntaxError string
  | TypeError string
  | AbortError string
  | Error string
  | Thrown string

fun errorText :: "exn \<Rightarrow> string" where
  "errorText (SyntaxError m) = m"
| "errorText (TypeError m) = m"
| "errorText (AbortError m) = m"
| "errorText (Error m) = m"
| "errorText (Thrown s) = s"

text \<open>Truthiness of a possibly absent string: \<open>undefined\<close>, \<open>null\<close> and \<open>''\<close> are falsy.\<close>

fun truthy :: "string option \<Rightarrow> bool" where
  "truthy None = False"
| "truthy (Some s) = (s \<noteq> [])"

text \<open>\<open>Array.prototype.join\<close> on strings.\<close>

fun join :: "string \<Rightarrow> string list \<Rightarrow> string" where
  "join sep [] = []"
| "join sep [x] = x"
| "join sep (x # y # ys) = x @ sep @ join sep (y # ys)"

text \<open>\<open>String.prototype.toLowerCase\<close> on code units below 256: the letters A-Z and the
  Latin-1 capitals (192-222 except the multiplication sign 215) move up by 32.\<close>

definition toLowerChar :: "char \<Rightarrow> char" where
  "toLowerChar c =
     (let n = (of_char c :: nat)
      in if (65 \<le> n \<and> n \<le> 90) \<or> (192 \<le> n \<and> n \<le> 222 \<and> n \<noteq> 215)
         then char_of (n + 32) else c)"

definition toLowerCase :: "string \<Rightarrow> string" where
  "toLowerCase s = map toLowerChar s"

section \<open>The provider-agnostic content model (openai-adapter.ts)\<close>

text \<open>\<open>name\<close> is a string in the declared type; the streaming path copies it from an
  untyped fragment, where it may be \<open>undefined\<close>, hence the \<open>option\<close>.\<close>

record FunctionCall =
  fc_name :: "string option"
  fc_args :: json
  fc_id :: "string option"

record FunctionResponse =
  fr_name :: string
  fr_response :: json
  fr_id :: "string option"

record InlineData =
  mimeType :: string
  data :: string

record FileData =
  fd_mimeType :: string
  fileUri :: string

record Part =
  part_text :: "string option"
  functionCall :: "FunctionCall option"
  functionResponse :: "FunctionResponse option"
  inlineData :: "InlineData option"
  fileData :: "FileData option"
  thought :: "string option"

record Content =
  role :: string
  parts :: "Part list"

text \<open>The object literals \<open>{ text: t }\<close> and \<open>{ functionCall: { name, args } }\<close>.\<close>

definition textPart :: "string \<Rightarrow> Part" where
  "textPart t =
     \<lparr>part_text = Some t, functionCall = None, functionResponse = None,
      inlineData = None, fileData = None, thought = None\<rparr>"

definition functionCallPart :: "string option \<Rightarrow> json \<Rightarrow> Part" where
  "functionCallPart n a =
     \<lparr>part_text = None,
      functionCall = Some \<lparr>fc_name = n, fc_args = a, fc_id = None\<rparr>,
      functionResponse = None, inlineData = None, fileData = None, thought = None\<rparr>"

record CountTokensParameters =
  ct_model :: string
  ct_contents :: "Content list"

record CountTokensResponse =
  totalTokens :: "nat option"

section \<open>countTokens\<close>

text \<open>\<open>request.contents.flatMap(content => content.parts).map(part => part.text || '').join(' ')\<close>\<close>

definition textOrEmpty :: "Part \<Rightarrow> string" where
  "textOrEmpty part = (if truthy (part_text part) then the (part_text part) else [])"

definition countTokens_text :: "CountTokensParameters \<Rightarrow> string" where
  "countTokens_text request =
     join '' '' (map textOrEmpty (concat (map parts (ct_contents request))))"

definition countTokens :: "CountTokensParameters \<Rightarrow> CountTokensResponse" where
  "countTokens request =
     (let text = countTokens_text request;
          estimatedTokens = nat \<lceil>real (length text) / 4\<rceil>
      in \<lparr>totalTokens = Some estimatedTokens\<rparr>)"

text \<open>The claim's reading of the counted text, for comparison: only the parts that carry a
  \<open>text\<close> field, joined with a space.\<close>

definition spec_countTokens_text :: "CountTokensParameters \<Rightarrow> string" where
  "spec_countTokens_text request =
     join '' '' (map (\<lambda>p. the (part_text p))
       (filter (\<lambda>p. part_text p \<noteq> None) (concat (map parts (ct_contents request)))))"

section \<open>Effective-model resolver (modelCheck.ts, config/models.ts)\<close>

definition DEFAULT_OPENAI_MODEL :: string where
  "DEFAULT_OPENAI_MODEL = ''gpt-4o''"

definition DEFAULT_OPENAI_FLASH_MODEL :: string where
  "DEFAULT_OPENAI_FLASH_MODEL = ''gpt-4o-mini''"

text \<open>The probe request handed to \<open>fetch\<close>, and what \<open>fetch\<close> does with it: it resolves
  to a response, of which the code reads the status only, or it rejects (the abort fired
  by the 2000 ms timer, a network failure, \<open>fetch\<close> itself missing).\<close>

record FetchRequest =
  endpoint :: string
  fetch_method :: string
  authorization :: string
  body :: json

datatype FetchOutcome = Response int | Rejected exn

definition probeRequest :: "string option \<Rightarrow> string \<Rightarrow> FetchRequest" where
  "probeRequest env_OPENAI_BASE_URL apiKey =
     (let modelToTest = DEFAULT_OPENAI_MODEL;
          baseURL = (if truthy env_OPENAI_BASE_URL then the env_OPENAI_BASE_URL
                     else ''https://api.openai.com/v1'');
          endpoint = baseURL @ ''/chat/completions'';
          body = JObj [(''model'', JStr modelToTest),
                       (''messages'', JArr [JObj [(''role'', JStr ''user''),
                                                   (''content'', JStr ''test'')]]),
                       (''max_tokens'', JNum 1),
                       (''temperature'', JNum 0)]
      in \<lparr>endpoint = endpoint, fetch_method = ''POST'',
          authorization = ''Bearer '' @ apiKey, body = body\<rparr>)"

text \<open>The result pairs what the promise settles to (\<open>Inl\<close>: rejected) with the list of
  requests issued.\<close>

definition getEffectiveModel ::
  "(FetchRequest \<Rightarrow> FetchOutcome) \<Rightarrow> string option \<Rightarrow> string \<Rightarrow> string
     \<Rightarrow> (exn + string) \<times> FetchRequest list" where
  "getEffectiveModel fetch env_OPENAI_BASE_URL apiKey currentConfiguredModel =
     (if currentConfiguredModel \<noteq> DEFAULT_OPENAI_MODEL then (Inr currentConfiguredModel, [])
      else
        let fallbackModel = DEFAULT_OPENAI_FLASH_MODEL;
            req = probeRequest env_OPENAI_BASE_URL apiKey
        in (case fetch req of
              Response status \<Rightarrow>
                if status = 429 then (Inr fallbackModel, [req])
                else (Inr currentConfiguredModel, [req])
            | Rejected error \<Rightarrow> (Inr currentConfiguredModel, [req])))"

section \<open>Message converter\<close>

text \<open>The backend's message objects.  \<open>m_content = None\<close> is the literal \<open>null\<close>;
  \<open>tool_calls\<close> and \<open>tool_call_id\<close> are \<open>None\<close> when the key is not written.\<close>

record ToolCallFunction =
  tcf_name :: "string option"
  tcf_arguments :: string

record ToolCallParam =
  tcp_id :: string
  tcp_type :: string
  tcp_function :: ToolCallFunction

record Message =
  m_role :: string
  m_content :: "string option"
  tool_calls :: "ToolCallParam list option"
  tool_call_id :: "string option"

text \<open>\<open>`call_${Math.random().toString(36).substr(2, 9)}`\<close>: the random source is the
  sequence \<open>rnd\<close> of the strings \<open>Math.random().toString(36).substr(2, 9)\<close>, and the state
  threaded through the converter is the number of draws made so far.\<close>

definition newCallId :: "(nat \<Rightarrow> string) \<Rightarrow> nat \<Rightarrow> string" where
  "newCallId rnd n = ''call_'' @ rnd n"

definition mapRole :: "string \<Rightarrow> string" where
  "mapRole r =
     (if r = ''model'' then ''assistant''
      else if r = ''user'' \<or> r = ''system'' \<or> r = ''assistant'' then r
      else (if r = ''assistant'' then ''assistant'' else ''user''))"

text \<open>\<open>xs.join(sep) || null\<close>\<close>

definition orNull :: "string \<Rightarrow> string option" where
  "orNull s = (if s = [] then None else Some s)"

text \<open>\<open>join\<close> renders an \<open>undefined\<close> element as the empty string.\<close>

definition textOf :: "Part \<Rightarrow> string" where
  "textOf part = (case part_text part of None \<Rightarrow> [] | Some t \<Rightarrow> t)"

definition toolCallOf :: "(json \<Rightarrow> string) \<Rightarrow> string \<Rightarrow> Part \<Rightarrow> ToolCallParam" where
  "toolCallOf stringify ident part =
     \<lparr>tcp_id = ident, tcp_type = ''function'',
      tcp_function =
        \<lparr>tcf_name = fc_name (the (functionCall part)),
         tcf_arguments = stringify (fc_args (the (functionCall part)))\<rparr>\<rparr>"

definition toolResultOf :: "(json \<Rightarrow> string) \<Rightarrow> string \<Rightarrow> Part \<Rightarrow> Message" where
  "toolResultOf stringify ident part =
     \<lparr>m_role = ''tool'',
      m_content = Some (stringify (fr_response (the (functionResponse part)))),
      tool_calls = None, tool_call_id = Some ident\<rparr>"

text \<open>The body of the \<open>forEach\<close> of \<open>convertContentsToMessages\<close>: the messages pushed for
  one turn, and the number of draws after it.  \<open>stringify\<close> is \<open>JSON.stringify\<close>.\<close>

definition convertContent ::
  "(json \<Rightarrow> string) \<Rightarrow> (nat \<Rightarrow> string) \<Rightarrow> Content \<Rightarrow> nat \<Rightarrow> Message list \<times> nat" where
  "convertContent stringify rnd content n =
     (if list_ex (\<lambda>part. functionCall part \<noteq> None \<or> functionResponse part \<noteq> None)
           (parts content)
      then
        let textParts = filter (\<lambda>part. truthy (part_text part)) (parts content);
            functionCalls = filter (\<lambda>part. functionCall part \<noteq> None) (parts content);
            functionResponses = filter (\<lambda>part. functionResponse part \<noteq> None) (parts content);
            n1 = n + length functionCalls;
            n2 = n1 + length functionResponses;
            assistant =
              (if length functionCalls > 0
               then [\<lparr>m_role = ''assistant'',
                      m_content = orNull (join [CHR 0x0A] (map textOf textParts)),
                      tool_calls = Some (map (\<lambda>(i, part). toolCallOf stringify (newCallId rnd i) part)
                                           (zip [n ..< n1] functionCalls)),
                      tool_call_id = None\<rparr>]
               else []);
            results =
              (if length functionResponses > 0
               then map (\<lambda>(i, part). toolResultOf stringify (newCallId rnd i) part)
                      (zip [n1 ..< n2] functionResponses)
               else [])
        in (assistant @ results, n2)
      else
        let content_text =
              join [CHR 0x0A]
                (filter (\<lambda>s. s \<noteq> [])
                   (map (\<lambda>part.
                           if truthy (part_text part) then the (part_text part)
                           else (case inlineData part of
                                   Some d \<Rightarrow> ''['' @ mimeType d @ '' data]''
                                 | None \<Rightarrow> []))
                      (parts content)))
        in ([\<lparr>m_role = mapRole (role content), m_content = Some content_text,
               tool_calls = None, tool_call_id = None\<rparr>], n))"

fun convertContentsToMessages ::
  "(json \<Rightarrow> string) \<Rightarrow> (nat \<Rightarrow> string) \<Rightarrow> Content list \<Rightarrow> nat \<Rightarrow> Message list \<times> nat" where
  "convertContentsToMessages stringify rnd [] n = ([], n)"
| "convertContentsToMessages stringify rnd (content # contents) n =
     (let (ms, n') = convertContent stringify rnd content n;
          (rest, n'') = convertContentsToMessages stringify rnd contents n'
      in (ms @ rest, n''))"

section \<open>Schema and tool converter\<close>

text \<open>\<open>SchemaUnion\<close>.  An object used as a dictionary (\<open>properties\<close>, the index
  signature) is the list of its entries in enumeration order; the special treatment that
  JavaScript gives the key \<open>__proto__\<close> in an assignment is not modelled.\<close>

datatype SchemaUnion =
  Schema
    (s_type: string)
    (s_properties: "(string \<times> SchemaUnion) list option")
    (s_items: "SchemaUnion option")
    (s_required: "string list option")
    (s_enum: "string list option")
    (s_description: "string option")
    (s_anyOf: "SchemaUnion list option")
    (s_default: "json option")
    (s_extra: "(string \<times> json) list")

text \<open>\<open>converted\<close> is a plain object, built by assignments: \<open>AList.update k v\<close> is
  \<open>converted[k] = v\<close> (a new key goes last).\<close>

fun convertSchemaToOpenAI :: "SchemaUnion \<Rightarrow> json" where
  "convertSchemaToOpenAI (Schema type properties items required enum description anyOf dflt extra) =
     (let converted = [(''type'', JStr (toLowerCase type))];
          converted =
            (if truthy description
             then AList.update ''description'' (JStr (the description)) converted
             else converted);
          converted =
            (case properties of
               Some entries \<Rightarrow>
                 AList.update ''properties''
                   (JObj (fold (\<lambda>entry props.
                                  AList.update (fst entry) (convertSchemaToOpenAI (snd entry)) props)
                            entries []))
                   converted
             | None \<Rightarrow> converted);
          converted =
            (case items of
               Some item \<Rightarrow> AList.update ''items'' (convertSchemaToOpenAI item) converted
             | None \<Rightarrow> converted);
          converted =
            (case required of
               Some names \<Rightarrow> AList.update ''required'' (JArr (map JStr names)) converted
             | None \<Rightarrow> converted);
          converted =
            (case enum of
               Some vals \<Rightarrow> AList.update ''enum'' (JArr (map JStr vals)) converted
             | None \<Rightarrow> converted)
      in JObj converted)"



record FunctionDeclaration =
  fd_name :: string
  fd_description :: string
  fd_parameters :: "SchemaUnion option"

record Tool =
  functionDeclarations :: "FunctionDeclaration list"

record ChatCompletionFunction =
  ccf_name :: string
  ccf_description :: string
  ccf_parameters :: "json option"

record ChatCompletionTool =
  cct_type :: string
  cct_function :: ChatCompletionFunction

definition convertToolsToOpenAI :: "Tool list \<Rightarrow> ChatCompletionTool list" where
  "convertToolsToOpenAI tools =
     concat (map (\<lambda>tool.
       map (\<lambda>func.
              \<lparr>cct_type = ''function'',
               cct_function =
                 \<lparr>ccf_name = fd_name func, ccf_description = fd_description func,
                  ccf_parameters = map_option convertSchemaToOpenAI (fd_parameters func)\<rparr>\<rparr>)
           (functionDeclarations tool)) tools)"

section \<open>Requests handed to the backend\<close>

datatype SystemInstruction = SIString string | SIContent Content

record GenerateContentConfig =
  temperature :: "rat option"
  topP :: "rat option"
  maxOutputTokens :: "int option"
  stopSequences :: "string list option"
  systemInstruction :: "SystemInstruction option"
  tools :: "Tool list option"

record GenerateContentParameters =
  model :: string
  config :: "GenerateContentConfig option"
  contents :: "Content list"

record ChatParams =
  cp_model :: string
  cp_messages :: "Message list"
  cp_temperature :: "rat option"
  cp_top_p :: "rat option"
  cp_max_tokens :: "int option"
  cp_stop :: "string list option"
  cp_tools :: "ChatCompletionTool list option"
  cp_tool_choice :: "string option"
  cp_stream :: "bool option"

text \<open>The block under \<open>// Add system instruction if provided\<close>, which \<open>generateContent\<close>
  and \<open>generateContentStreamInternal\<close> both contain word for word.\<close>

definition systemContentOf :: "SystemInstruction \<Rightarrow> string" where
  "systemContentOf si =
     (case si of
        SIString str \<Rightarrow> str
      | SIContent c \<Rightarrow> join [CHR 0x0A] (map the (filter truthy (map part_text (parts c)))))"

text \<open>\<open>if (request.config?.systemInstruction)\<close>: a string is truthy unless empty, an
  object always.\<close>

definition instructionGiven :: "SystemInstruction option \<Rightarrow> bool" where
  "instructionGiven si =
     (case si of None \<Rightarrow> False | Some (SIString str) \<Rightarrow> str \<noteq> [] | Some (SIContent c) \<Rightarrow> True)"

definition addSystemInstruction ::
  "GenerateContentConfig option \<Rightarrow> Message list \<Rightarrow> Message list" where
  "addSystemInstruction cfg messages =
     (if instructionGiven (Option.bind cfg systemInstruction)
      then
        let systemContent = systemContentOf (the (Option.bind cfg systemInstruction))
        in if systemContent \<noteq> []
           then \<lparr>m_role = ''system'', m_content = Some systemContent,
                 tool_calls = None, tool_call_id = None\<rparr> # messages
           else messages
      else messages)"

definition chatParams ::
  "(json \<Rightarrow> string) \<Rightarrow> (nat \<Rightarrow> string) \<Rightarrow> GenerateContentParameters \<Rightarrow> nat \<Rightarrow> bool option
     \<Rightarrow> ChatParams" where
  "chatParams stringify rnd request n stream =
     (let messages = fst (convertContentsToMessages stringify rnd (contents request) n);
          messages = addSystemInstruction (config request) messages;
          tools = map_option convertToolsToOpenAI (Option.bind (config request) tools)
      in \<lparr>cp_model = model request,
          cp_messages = messages,
          cp_temperature = Option.bind (config request) temperature,
          cp_top_p = Option.bind (config request) topP,
          cp_max_tokens = Option.bind (config request) maxOutputTokens,
          cp_stop = Option.bind (config request) stopSequences,
          cp_tools = tools,
          cp_tool_choice = (if tools \<noteq> None then Some ''auto'' else None),
          cp_stream = stream\<rparr>)"

section \<open>Response synthesizer\<close>

record ToolCallFn =
  fn_name :: string
  fn_arguments :: string

record ChatCompletionMessageToolCall =
  tc_id :: string
  tc_type :: string
  tc_function :: ToolCallFn

record ChatCompletionMessage =
  cm_content :: "string option"
  cm_tool_calls :: "ChatCompletionMessageToolCall list option"

record Choice =
  message :: ChatCompletionMessage
  finish_reason :: "string option"
  choice_index :: int

record CompletionUsage =
  prompt_tokens :: int
  completion_tokens :: int
  total_tokens :: int

record ChatCompletion =
  choices :: "Choice list"
  usage :: "CompletionUsage option"

record UsageMetadata =
  promptTokenCount :: "int option"
  candidatesTokenCount :: "int option"
  totalTokenCount :: "int option"

record Candidate =
  content :: Content
  finishReason :: "string option"
  index :: "int option"

record GenerateContentResponse =
  candidates :: "Candidate list option"
  usageMetadata :: "UsageMetadata option"

text \<open>\<open>JSON.parse\<close> is the parameter \<open>parse\<close>: \<open>Inl m\<close> is the \<open>SyntaxError\<close> with message
  \<open>m\<close> it throws.  \<open>args || '{}'\<close>:\<close>

definition argumentsOrEmpty :: "string option \<Rightarrow> string" where
  "argumentsOrEmpty a = (if truthy a then the a else ''{}'')"

text \<open>The \<open>for\<close> loop over \<open>choice.message.tool_calls\<close>.\<close>

fun toolCallParts ::
  "(string \<Rightarrow> string + json) \<Rightarrow> ChatCompletionMessageToolCall list \<Rightarrow> exn + Part list" where
  "toolCallParts parse [] = Inr []"
| "toolCallParts parse (toolCall # rest) =
     (if tc_type toolCall = ''function''
      then (case parse (argumentsOrEmpty (Some (fn_arguments (tc_function toolCall)))) of
              Inl m \<Rightarrow> Inl (SyntaxError m)
            | Inr args \<Rightarrow>
                (case toolCallParts parse rest of
                   Inl e \<Rightarrow> Inl e
                 | Inr ps \<Rightarrow>
                     Inr (functionCallPart (Some (fn_name (tc_function toolCall))) args # ps)))
      else toolCallParts parse rest)"

definition convertOpenAIResponseToGenAI ::
  "(string \<Rightarrow> string + json) \<Rightarrow> ChatCompletion \<Rightarrow> exn + GenerateContentResponse" where
  "convertOpenAIResponseToGenAI parse response =
     (case choices response of
        [] \<Rightarrow> Inr \<lparr>candidates = Some [], usageMetadata = None\<rparr>
      | choice # _ \<Rightarrow>
          let parts0 = (if truthy (cm_content (message choice))
                        then [textPart (the (cm_content (message choice)))] else [])
          in (case (case cm_tool_calls (message choice) of
                      Some tcs \<Rightarrow> toolCallParts parse tcs
                    | None \<Rightarrow> Inr []) of
                Inl e \<Rightarrow> Inl e
              | Inr fps \<Rightarrow>
                  Inr \<lparr>candidates =
                         Some [\<lparr>content = \<lparr>role = ''model'', parts = parts0 @ fps\<rparr>,
                                finishReason = (if truthy (finish_reason choice)
                                                then finish_reason choice else None),
                                index = Some (choice_index choice)\<rparr>],
                       usageMetadata =
                         Some \<lparr>promptTokenCount = map_option prompt_tokens (usage response),
                               candidatesTokenCount = map_option completion_tokens (usage response),
                               totalTokenCount = map_option total_tokens (usage response)\<rparr>\<rparr>))"

text \<open>The \<open>catch\<close> of the facade: \<open>throw new Error(`OpenAI API error: ${...}`)\<close>.\<close>

definition wrapError :: "exn \<Rightarrow> exn" where
  "wrapError e = Error (''OpenAI API error: '' @ errorText e)"

text \<open>\<open>create\<close> is \<open>this.client.chat.completions.create\<close> without \<open>stream\<close>.\<close>

definition generateContent ::
  "(string \<Rightarrow> string + json) \<Rightarrow> (json \<Rightarrow> string) \<Rightarrow> (nat \<Rightarrow> string)
     \<Rightarrow> (ChatParams \<Rightarrow> exn + ChatCompletion) \<Rightarrow> GenerateContentParameters \<Rightarrow> nat
     \<Rightarrow> exn + GenerateContentResponse" where
  "generateContent parse stringify rnd create request n =
     (case create (chatParams stringify rnd request n None) of
        Inl e \<Rightarrow> Inl (wrapError e)
      | Inr completion \<Rightarrow>
          (case convertOpenAIResponseToGenAI parse completion of
             Inl e \<Rightarrow> Inl (wrapError e)
           | Inr r \<Rightarrow> Inr r))"

section \<open>Stream accumulator\<close>

text \<open>The incremental events of the backend.  The fragments of \<open>delta.tool_calls\<close> are
  pushed into an \<open>any[]\<close>; every field but \<open>index\<close> is optional in them.\<close>

record DeltaFunction =
  df_name :: "string option"
  df_arguments :: "string option"

record DeltaToolCall =
  dtc_index :: int
  dtc_id :: "string option"
  dtc_type :: "string option"
  dtc_function :: "DeltaFunction option"

record Delta =
  d_content :: "string option"
  d_tool_calls :: "DeltaToolCall list option"

record ChunkChoice =
  delta :: "Delta option"
  cc_finish_reason :: "string option"

record Chunk =
  chunk_choices :: "ChunkChoice list"

text \<open>A stream yields its events and then either ends or throws \<open>failure\<close>.\<close>

record ChunkStream =
  events :: "Chunk list"
  failure :: "exn option"

text \<open>The \<open>for\<close> loop over \<open>toolCalls\<close> in \<open>createStreamResponse\<close>; reading \<open>.name\<close> of
  a missing \<open>function\<close> is a \<open>TypeError\<close>.\<close>

fun streamToolCallParts ::
  "(string \<Rightarrow> string + json) \<Rightarrow> DeltaToolCall list \<Rightarrow> exn + Part list" where
  "streamToolCallParts parse [] = Inr []"
| "streamToolCallParts parse (toolCall # rest) =
     (if dtc_type toolCall = Some ''function''
      then (case dtc_function toolCall of
              None \<Rightarrow> Inl (TypeError ''Cannot read properties of undefined'')
            | Some f \<Rightarrow>
                (case parse (argumentsOrEmpty (df_arguments f)) of
                   Inl m \<Rightarrow> Inl (SyntaxError m)
                 | Inr args \<Rightarrow>
                     (case streamToolCallParts parse rest of
                        Inl e \<Rightarrow> Inl e
                      | Inr ps \<Rightarrow> Inr (functionCallPart (df_name f) args # ps))))
      else streamToolCallParts parse rest)"

definition createStreamResponse ::
  "(string \<Rightarrow> string + json) \<Rightarrow> string \<Rightarrow> bool \<Rightarrow> DeltaToolCall list option
     \<Rightarrow> exn + GenerateContentResponse" where
  "createStreamResponse parse content_text isComplete toolCalls =
     (let parts0 = (if content_text \<noteq> [] then [textPart content_text] else [])
      in (case (case toolCalls of
                  Some tcs \<Rightarrow> if length tcs > 0 then streamToolCallParts parse tcs else Inr []
                | None \<Rightarrow> Inr []) of
            Inl e \<Rightarrow> Inl e
          | Inr fps \<Rightarrow>
              Inr \<lparr>candidates =
                     Some [\<lparr>content = \<lparr>role = ''model'', parts = parts0 @ fps\<rparr>,
                            finishReason = (if isComplete then Some ''stop'' else None),
                            index = Some 0\<rparr>],
                   usageMetadata = None\<rparr>))"

text \<open>What the loop reads of a chunk: \<open>chunk.choices[0]?.delta?.content\<close>,
  \<open>chunk.choices[0]?.delta?.tool_calls\<close> and \<open>chunk.choices[0]?.finish_reason\<close>.\<close>

definition chunkDelta :: "Chunk \<Rightarrow> Delta option" where
  "chunkDelta chunk = (case chunk_choices chunk of [] \<Rightarrow> None | c # _ \<Rightarrow> delta c)"

definition chunkContent :: "Chunk \<Rightarrow> string option" where
  "chunkContent chunk = Option.bind (chunkDelta chunk) d_content"

definition chunkToolCalls :: "Chunk \<Rightarrow> DeltaToolCall list option" where
  "chunkToolCalls chunk = Option.bind (chunkDelta chunk) d_tool_calls"

definition chunkFinishReason :: "Chunk \<Rightarrow> string option" where
  "chunkFinishReason chunk =
     (case chunk_choices chunk of [] \<Rightarrow> None | c # _ \<Rightarrow> cc_finish_reason c)"

text \<open>The \<open>for await\<close> loop of \<open>generateContentStreamInternal\<close>, with its two variables
  \<open>accumulatedContent\<close> and \<open>toolCalls\<close>.  The result is the list of responses yielded, in
  order, and the exception that ends the generator, if one does.\<close>

fun streamLoop ::
  "(string \<Rightarrow> string + json) \<Rightarrow> string \<Rightarrow> DeltaToolCall list \<Rightarrow> Chunk list \<Rightarrow> exn option
     \<Rightarrow> GenerateContentResponse list \<times> exn option" where
  "streamLoop parse accumulatedContent toolCalls [] fail = ([], fail)"
| "streamLoop parse accumulatedContent toolCalls (chunk # rest) fail =
     (let accumulatedContent' =
            (if truthy (chunkContent chunk)
             then accumulatedContent @ the (chunkContent chunk) else accumulatedContent);
          toolCalls' =
            (case chunkToolCalls chunk of Some tcs \<Rightarrow> toolCalls @ tcs | None \<Rightarrow> toolCalls)
      in (case (if truthy (chunkContent chunk)
                then map_sum id (\<lambda>r. [r]) (createStreamResponse parse accumulatedContent' False None)
                else Inr []) of
            Inl e \<Rightarrow> ([], Some e)
          | Inr out1 \<Rightarrow>
              if truthy (chunkFinishReason chunk)
              then (case createStreamResponse parse accumulatedContent' True (Some toolCalls') of
                      Inl e \<Rightarrow> (out1, Some e)
                    | Inr r \<Rightarrow> (out1 @ [r], None))
              else (let (out, e) = streamLoop parse accumulatedContent' toolCalls' rest fail
                    in (out1 @ out, e))))"

text \<open>\<open>create\<close> is \<open>this.client.chat.completions.create\<close> with \<open>stream: true\<close>.\<close>

definition generateContentStreamInternal ::
  "(string \<Rightarrow> string + json) \<Rightarrow> (json \<Rightarrow> string) \<Rightarrow> (nat \<Rightarrow> string)
     \<Rightarrow> (ChatParams \<Rightarrow> exn + ChunkStream) \<Rightarrow> GenerateContentParameters \<Rightarrow> nat
     \<Rightarrow> GenerateContentResponse list \<times> exn option" where
  "generateContentStreamInternal parse stringify rnd create request n =
     (case create (chatParams stringify rnd request n (Some True)) of
        Inl e \<Rightarrow> ([], Some (wrapError e))
      | Inr stream \<Rightarrow>
          (let (out, e) = streamLoop parse [] [] (events stream) (failure stream)
           in (out, map_option wrapError e)))"

definition generateContentStream ::
  "(string \<Rightarrow> string + json) \<Rightarrow> (json \<Rightarrow> string) \<Rightarrow> (nat \<Rightarrow> string)
     \<Rightarrow> (ChatParams \<Rightarrow> exn + ChunkStream) \<Rightarrow> GenerateContentParameters \<Rightarrow> nat
     \<Rightarrow> GenerateContentResponse list \<times> exn option" where
  "generateContentStream parse stringify rnd create request n =
     generateContentStreamInternal parse stringify rnd create request n"

section \<open>Terms in which the properties are stated\<close>

text \<open>The identifiers carried by a message sequence, in order: those of the tool
  invocations of an assistant message, and that of a tool-result message.\<close>

definition messageIds :: "Message list \<Rightarrow> string list" where
  "messageIds ms =
     concat (map (\<lambda>m. (case tool_calls m of Some tcs \<Rightarrow> map tcp_id tcs | None \<Rightarrow> [])
                       @ (case tool_call_id m of Some i \<Rightarrow> [i] | None \<Rightarrow> [])) ms)"

text \<open>What one event contributes to the two variables of the stream loop, and the
  snapshot a text delta produces once the accumulated text is \<open>t\<close>.\<close>

definition deltaText :: "Chunk \<Rightarrow> string" where
  "deltaText chunk = (if truthy (chunkContent chunk) then the (chunkContent chunk) else [])"

definition fragments :: "Chunk \<Rightarrow> DeltaToolCall list" where
  "fragments chunk = (case chunkToolCalls chunk of Some tcs \<Rightarrow> tcs | None \<Rightarrow> [])"

definition textSnapshot :: "string \<Rightarrow> GenerateContentResponse" where
  "textSnapshot t =
     \<lparr>candidates = Some [\<lparr>content = \<lparr>role = ''model'', parts = [textPart t]\<rparr>,
                           finishReason = None, index = Some 0\<rparr>],
      usageMetadata = None\<rparr>"

text \<open>One snapshot per event that carries a non-empty text delta, holding the text of all
  events up to and including it, after the text \<open>acc\<close> accumulated before.\<close>

definition textSnapshots :: "string \<Rightarrow> Chunk list \<Rightarrow> GenerateContentResponse list" where
  "textSnapshots acc chunks =
     map (\<lambda>p. textSnapshot (acc @ concat (map deltaText p)))
       (filter (\<lambda>p. p \<noteq> [] \<and> truthy (chunkContent (last p))) (prefixes chunks))"

definition isFunctionFragment :: "DeltaToolCall \<Rightarrow> bool" where
  "isFunctionFragment tc = (dtc_type tc = Some ''function'')"

text \<open>Stand-ins for \<open>JSON.parse\<close> and \<open>JSON.stringify\<close> in the examples; they agree with
  the built-ins on the texts \<open>{}\<close>, \<open>{"q":"x"}\<close> and the truncated \<open>{"q":\<close>, the only
  ones the examples use.\<close>

definition sampleArgs :: json where
  "sampleArgs = JObj [(''q'', JStr ''x'')]"

definition sampleArgsText :: string where
  "sampleArgsText =
     [CHR ''{'', CHR 0x22, CHR ''q'', CHR 0x22, CHR '':'', CHR 0x22, CHR ''x'', CHR 0x22, CHR ''}'']"

definition truncatedArgsText :: string where
  "truncatedArgsText = [CHR ''{'', CHR 0x22, CHR ''q'', CHR 0x22, CHR '':'']"

definition sampleParse :: "string \<Rightarrow> string + json" where
  "sampleParse s =
     (if s = ''{}'' then Inr (JObj [])
      else if s = sampleArgsText then Inr sampleArgs
      else Inl ''Unexpected end of JSON input'')"

definition sampleStringify :: "json \<Rightarrow> string" where
  "sampleStringify j = (if j = sampleArgs then sampleArgsText else ''{}'')"

text \<open>The function-call part made from a tool invocation whose arguments parse, and the
  condition that they do: for a completed message, and for a buffered stream fragment
  (which must also have its \<open>function\<close> field).\<close>

definition toolCallOk :: "(string \<Rightarrow> string + json) \<Rightarrow> ChatCompletionMessageToolCall \<Rightarrow> bool" where
  "toolCallOk parse tc = (\<not> isl (parse (argumentsOrEmpty (Some (fn_arguments (tc_function tc))))))"

definition toolCallPart :: "(string \<Rightarrow> string + json) \<Rightarrow> ChatCompletionMessageToolCall \<Rightarrow> Part" where
  "toolCallPart parse tc =
     functionCallPart (Some (fn_name (tc_function tc)))
       (projr (parse (argumentsOrEmpty (Some (fn_arguments (tc_function tc))))))"

definition isFunctionCall :: "ChatCompletionMessageToolCall \<Rightarrow> bool" where
  "isFunctionCall tc = (tc_type tc = ''function'')"

definition messageToolCalls :: "Choice \<Rightarrow> ChatCompletionMessageToolCall list" where
  "messageToolCalls choice = (case cm_tool_calls (message choice) of Some tcs \<Rightarrow> tcs | None \<Rightarrow> [])"

definition fragmentOk :: "(string \<Rightarrow> string + json) \<Rightarrow> DeltaToolCall \<Rightarrow> bool" where
  "fragmentOk parse tc =
     (case dtc_function tc of
        None \<Rightarrow> False
      | Some f \<Rightarrow> \<not> isl (parse (argumentsOrEmpty (df_arguments f))))"

definition fragmentPart :: "(string \<Rightarrow> string + json) \<Rightarrow> DeltaToolCall \<Rightarrow> Part" where
  "fragmentPart parse tc =
     functionCallPart (df_name (the (dtc_function tc)))
       (projr (parse (argumentsOrEmpty (df_arguments (the (dtc_function tc))))))"

text \<open>The snapshot of the terminal event, for the accumulated text \<open>t\<close> and the
  function-call parts \<open>fps\<close>.\<close>

definition terminalSnapshot :: "string \<Rightarrow> Part list \<Rightarrow> GenerateContentResponse" where
  "terminalSnapshot t fps =
     \<lparr>candidates =
        Some [\<lparr>content = \<lparr>role = ''model'',
                           parts = (if t \<noteq> [] then [textPart t] else []) @ fps\<rparr>,
               finishReason = Some ''stop'', index = Some 0\<rparr>],
      usageMetadata = None\<rparr>"

text \<open>The events and the request of the examples: an event with a text delta only, with
  tool-call fragments only, and with a finish reason only.\<close>

definition textChunk :: "string \<Rightarrow> Chunk" where
  "textChunk s =
     \<lparr>chunk_choices = [\<lparr>delta = Some \<lparr>d_content = Some s, d_tool_calls = None\<rparr>,
                        cc_finish_reason = None\<rparr>]\<rparr>"

definition toolChunk :: "DeltaToolCall list \<Rightarrow> Chunk" where
  "toolChunk tcs =
     \<lparr>chunk_choices = [\<lparr>delta = Some \<lparr>d_content = None, d_tool_calls = Some tcs\<rparr>,
                        cc_finish_reason = None\<rparr>]\<rparr>"

definition finishChunk :: "string \<Rightarrow> Chunk" where
  "finishChunk r =
     \<lparr>chunk_choices = [\<lparr>delta = Some \<lparr>d_content = None, d_tool_calls = None\<rparr>,
                        cc_finish_reason = Some r\<rparr>]\<rparr>"

definition sampleRequest :: GenerateContentParameters where
  "sampleRequest =
     \<lparr>model = ''gpt-4o'', config = None,
      contents = [\<lparr>role = ''user'', parts = [textPart ''hi'']\<rparr>]\<rparr>"

section \<open>Auxiliary facts\<close>

lemma length_join_space:
  "length (join '' '' xs) = sum_list (map length xs) + (length xs - 1)"
  by (induction "'' ''" xs rule: join.induct) auto

lemma ceil_div4: "nat \<lceil>real n / 4\<rceil> = (n + 3) div 4"
proof -
  have "\<lceil>real n / 4\<rceil> = \<lceil>(of_int (int n) :: real) / of_int 4\<rceil>" by simp
  also have "\<dots> = - (- int n div 4)" by (rule ceiling_divide_eq_div)
  also have "\<dots> = (int n + 3) div 4" by presburger
  finally show ?thesis by (simp add: nat_div_distrib nat_add_distrib)
qed

section \<open>Effective-model resolver: the decision table\<close>

text \<open>
  C2.  For every configured model and every outcome of the probe, \<open>getEffectiveModel\<close>
  settles to a model (it never rejects).  A configured model other than the primary one
  is returned unchanged and no request is issued.  For the primary model one probe is
  issued; the fallback model is returned when the probe answers with status 429, and the
  primary model for every other outcome: any other status (the body of the response is
  never read, so a malformed one changes nothing), and every rejection of \<open>fetch\<close> (the
  abort fired by the timer, a network failure).
\<close>

theorem getEffectiveModel_decision:
  "(\<exists>m. fst (getEffectiveModel fetch env apiKey cm) = Inr m)
   \<and> (cm \<noteq> DEFAULT_OPENAI_MODEL \<longrightarrow>
        getEffectiveModel fetch env apiKey cm = (Inr cm, []))
   \<and> (cm = DEFAULT_OPENAI_MODEL \<and> fetch (probeRequest env apiKey) = Response 429 \<longrightarrow>
        getEffectiveModel fetch env apiKey cm
          = (Inr DEFAULT_OPENAI_FLASH_MODEL, [probeRequest env apiKey]))
   \<and> (cm = DEFAULT_OPENAI_MODEL \<and> fetch (probeRequest env apiKey) \<noteq> Response 429 \<longrightarrow>
        getEffectiveModel fetch env apiKey cm
          = (Inr DEFAULT_OPENAI_MODEL, [probeRequest env apiKey]))"
  by (auto simp: getEffectiveModel_def Let_def split: FetchOutcome.splits)

theorem getEffectiveModel_decision_witness:
  "''gpt-4.1'' \<noteq> DEFAULT_OPENAI_MODEL
   \<and> getEffectiveModel (\<lambda>_. Response 429) None ''key'' ''gpt-4.1'' = (Inr ''gpt-4.1'', [])
   \<and> getEffectiveModel (\<lambda>_. Response 429) None ''key'' ''gpt-4o''
       = (Inr ''gpt-4o-mini'', [probeRequest None ''key''])
   \<and> getEffectiveModel (\<lambda>_. Response 500) None ''key'' ''gpt-4o''
       = (Inr ''gpt-4o'', [probeRequest None ''key''])
   \<and> getEffectiveModel (\<lambda>_. Rejected (AbortError ''This operation was aborted'')) None
         ''key'' ''gpt-4o''
       = (Inr ''gpt-4o'', [probeRequest None ''key''])"
  using getEffectiveModel_decision [of "\<lambda>_. Response 429" None "''key''" "''gpt-4.1''"]
        getEffectiveModel_decision [of "\<lambda>_. Response 429" None "''key''" "''gpt-4o''"]
        getEffectiveModel_decision [of "\<lambda>_. Response 500" None "''key''" "''gpt-4o''"]
        getEffectiveModel_decision
          [of "\<lambda>_. Rejected (AbortError ''This operation was aborted'')" None "''key''" "''gpt-4o''"]
  by (simp add: DEFAULT_OPENAI_MODEL_def DEFAULT_OPENAI_FLASH_MODEL_def)

section \<open>countTokens: the estimate\<close>

text \<open>
  C7, as amended.  \<open>countTokens\<close> returns \<open>ceil(n / 4)\<close>, where \<open>n\<close> is the length of
  the space-joined concatenation of one string per part of all content turns: the part's
  text, or the empty string for a part without text.  So \<open>n\<close> is the total length of the
  texts plus one separator between any two consecutive parts, whatever their kind.  In
  particular a single text part of 40 characters yields exactly 10.
\<close>

theorem countTokens_estimate:
  "totalTokens (countTokens request)
     = Some (nat \<lceil>real (length (join '' '' (map textOrEmpty
                (concat (map parts (ct_contents request)))))) / 4\<rceil>)
   \<and> length (join '' '' (map textOrEmpty (concat (map parts (ct_contents request)))))
     = sum_list (map (length \<circ> textOrEmpty) (concat (map parts (ct_contents request))))
       + (length (concat (map parts (ct_contents request))) - 1)
   \<and> totalTokens (countTokens request) = Some ((length (countTokens_text request) + 3) div 4)
   \<and> (length t = 40 \<longrightarrow>
        totalTokens (countTokens
          \<lparr>ct_model = m, ct_contents = [\<lparr>role = r, parts = [textPart t]\<rparr>]\<rparr>) = Some 10)"
proof -
  have "totalTokens (countTokens request)
     = Some (nat \<lceil>real (length (join '' '' (map textOrEmpty
                (concat (map parts (ct_contents request)))))) / 4\<rceil>)"
    by (simp add: countTokens_def countTokens_text_def Let_def)
  moreover have "length (join '' '' (map textOrEmpty (concat (map parts (ct_contents request)))))
     = sum_list (map (length \<circ> textOrEmpty) (concat (map parts (ct_contents request))))
       + (length (concat (map parts (ct_contents request))) - 1)"
    by (simp add: length_join_space comp_def)
  moreover have "totalTokens (countTokens request)
     = Some ((length (countTokens_text request) + 3) div 4)"
    by (simp add: countTokens_def Let_def ceil_div4)
  moreover have "length t = 40 \<longrightarrow>
        totalTokens (countTokens
          \<lparr>ct_model = m, ct_contents = [\<lparr>role = r, parts = [textPart t]\<rparr>]\<rparr>) = Some 10"
    by (auto simp: countTokens_def countTokens_text_def Let_def textOrEmpty_def textPart_def)
  ultimately show ?thesis by blast
qed

theorem countTokens_estimate_witness:
  "length ''The quick brown fox jumps over the lazy.'' = 40
   \<and> totalTokens (countTokens
         \<lparr>ct_model = ''gpt-4o'',
          ct_contents = [\<lparr>role = ''user'',
                          parts = [textPart ''The quick brown fox jumps over the lazy.'']\<rparr>]\<rparr>)
       = Some 10"
  using countTokens_estimate
    [of "\<lparr>ct_model = ''gpt-4o'', ct_contents = []\<rparr>"
        "''The quick brown fox jumps over the lazy.''" "''gpt-4o''" "''user''"]
  by simp

text \<open>The claim as stated counts the text parts only.  A turn with the text \<open>abcd\<close> and
  an inline-data part is counted as the five characters \<open>abcd\<close> and a separator: the
  estimate is 2, where the text parts alone give 1.\<close>

theorem countTokens_text_parts_counterexample:
  "totalTokens (countTokens
      \<lparr>ct_model = ''gpt-4o'',
       ct_contents = [\<lparr>role = ''user'',
                       parts = [textPart ''abcd'',
                                \<lparr>part_text = None, functionCall = None, functionResponse = None,
                                 inlineData = Some \<lparr>mimeType = ''image/png'', data = ''AAAA''\<rparr>,
                                 fileData = None, thought = None\<rparr>]\<rparr>]\<rparr>) = Some 2
   \<and> nat \<lceil>real (length (spec_countTokens_text
      \<lparr>ct_model = ''gpt-4o'',
       ct_contents = [\<lparr>role = ''user'',
                       parts = [textPart ''abcd'',
                                \<lparr>part_text = None, functionCall = None, functionResponse = None,
                                 inlineData = Some \<lparr>mimeType = ''image/png'', data = ''AAAA''\<rparr>,
                                 fileData = None, thought = None\<rparr>]\<rparr>]\<rparr>)) / 4\<rceil> = 1"
  by (simp add: countTokens_def countTokens_text_def spec_countTokens_text_def
        textOrEmpty_def textPart_def)

section \<open>Schema converter\<close>











section \<open>System instruction\<close>

text \<open>
  C4, as amended.  \<open>generateContent\<close> and \<open>generateContentStream\<close> hand to the backend the
  parameters \<open>chatParams \<dots> None\<close> and \<open>chatParams \<dots> (Some True)\<close>, and nothing else:
  their results depend on the backend through its answer to these alone.  For every request
  whose config carries a system instruction with non-empty text (the string itself, or the
  non-empty texts of its parts joined with newlines), their message sequence is the system
  message followed by the converted contents, whatever turns the contents hold.  When that
  text is empty no system message is inserted.
\<close>

theorem chatParams_system_first:
  "(Option.bind (config request) systemInstruction = Some si \<and> systemContentOf si \<noteq> [] \<longrightarrow>
      cp_messages (chatParams stringify rnd request n stream)
        = \<lparr>m_role = ''system'', m_content = Some (systemContentOf si),
            tool_calls = None, tool_call_id = None\<rparr>
          # fst (convertContentsToMessages stringify rnd (contents request) n))
   \<and> (Option.bind (config request) systemInstruction = Some si \<and> systemContentOf si = [] \<longrightarrow>
      cp_messages (chatParams stringify rnd request n stream)
        = fst (convertContentsToMessages stringify rnd (contents request) n))
   \<and> (create (chatParams stringify rnd request n None)
         = create' (chatParams stringify rnd request n None) \<longrightarrow>
      generateContent parse stringify rnd create request n
        = generateContent parse stringify rnd create' request n)
   \<and> (screate (chatParams stringify rnd request n (Some True))
         = screate' (chatParams stringify rnd request n (Some True)) \<longrightarrow>
      generateContentStream parse stringify rnd screate request n
        = generateContentStream parse stringify rnd screate' request n)"
proof -
  have "Option.bind (config request) systemInstruction = Some si \<and> systemContentOf si \<noteq> [] \<longrightarrow>
      cp_messages (chatParams stringify rnd request n stream)
        = \<lparr>m_role = ''system'', m_content = Some (systemContentOf si),
            tool_calls = None, tool_call_id = None\<rparr>
          # fst (convertContentsToMessages stringify rnd (contents request) n)"
    by (cases si) (auto simp: chatParams_def addSystemInstruction_def instructionGiven_def
          systemContentOf_def Let_def)
  moreover have "Option.bind (config request) systemInstruction = Some si \<and> systemContentOf si = [] \<longrightarrow>
      cp_messages (chatParams stringify rnd request n stream)
        = fst (convertContentsToMessages stringify rnd (contents request) n)"
    by (cases si) (auto simp: chatParams_def addSystemInstruction_def instructionGiven_def
          systemContentOf_def Let_def)
  moreover have "create (chatParams stringify rnd request n None)
         = create' (chatParams stringify rnd request n None) \<longrightarrow>
      generateContent parse stringify rnd create request n
        = generateContent parse stringify rnd create' request n"
    by (simp add: generateContent_def)
  moreover have "screate (chatParams stringify rnd request n (Some True))
         = screate' (chatParams stringify rnd request n (Some True)) \<longrightarrow>
      generateContentStream parse stringify rnd screate request n
        = generateContentStream parse stringify rnd screate' request n"
    by (simp add: generateContentStream_def generateContentStreamInternal_def)
  ultimately show ?thesis by blast
qed

theorem chatParams_system_first_witness:
  "(let request =
      \<lparr>model = ''gpt-4o'',
       config = Some \<lparr>temperature = None, topP = None, maxOutputTokens = None,
                      stopSequences = None,
                      systemInstruction = Some (SIString ''Be brief.''),
                      tools = None\<rparr>,
       contents = [\<lparr>role = ''system'', parts = [textPart ''Old rules.'']\<rparr>,
                   \<lparr>role = ''user'', parts = [textPart ''hi'']\<rparr>]\<rparr>
    in Option.bind (config request) systemInstruction = Some (SIString ''Be brief.'')
       \<and> systemContentOf (SIString ''Be brief.'') \<noteq> []
       \<and> cp_messages (chatParams sampleStringify (\<lambda>i. ''4fzyo82mv'') request 0 (Some True))
           = [\<lparr>m_role = ''system'', m_content = Some ''Be brief.'',
                tool_calls = None, tool_call_id = None\<rparr>,
              \<lparr>m_role = ''system'', m_content = Some ''Old rules.'',
                tool_calls = None, tool_call_id = None\<rparr>,
              \<lparr>m_role = ''user'', m_content = Some ''hi'',
                tool_calls = None, tool_call_id = None\<rparr>])"
  using chatParams_system_first
    [of "\<lparr>model = ''gpt-4o'',
       config = Some \<lparr>temperature = None, topP = None, maxOutputTokens = None,
                      stopSequences = None,
                      systemInstruction = Some (SIString ''Be brief.''),
                      tools = None\<rparr>,
       contents = [\<lparr>role = ''system'', parts = [textPart ''Old rules.'']\<rparr>,
                   \<lparr>role = ''user'', parts = [textPart ''hi'']\<rparr>]\<rparr>"
        "SIString ''Be brief.''" sampleStringify "\<lambda>i. ''4fzyo82mv''" 0 "Some True"]
  by (simp add: systemContentOf_def convertContent_def textPart_def mapRole_def)

text \<open>A system instruction given as a Content without any text (here a single file
  part) is dropped by the guard \<open>if (systemContent)\<close>: the first message handed to the
  backend is the user's.\<close>

theorem chatParams_system_first_counterexample:
  "(let request =
      \<lparr>model = ''gpt-4o'',
       config = Some \<lparr>temperature = None, topP = None, maxOutputTokens = None,
                      stopSequences = None,
                      systemInstruction =
                        Some (SIContent
                          \<lparr>role = ''system'',
                           parts = [\<lparr>part_text = None, functionCall = None,
                                     functionResponse = None, inlineData = None,
                                     fileData = Some \<lparr>fd_mimeType = ''text/plain'',
                                                      fileUri = ''gs://bucket/rules.txt''\<rparr>,
                                     thought = None\<rparr>]\<rparr>),
                      tools = None\<rparr>,
       contents = [\<lparr>role = ''user'', parts = [textPart ''hi'']\<rparr>]\<rparr>
    in systemInstruction (the (config request)) \<noteq> None
       \<and> cp_messages (chatParams sampleStringify (\<lambda>i. ''4fzyo82mv'') request 0 None)
           = [\<lparr>m_role = ''user'', m_content = Some ''hi'',
                tool_calls = None, tool_call_id = None\<rparr>]
       \<and> cp_messages (chatParams sampleStringify (\<lambda>i. ''4fzyo82mv'') request 0 (Some True))
           = [\<lparr>m_role = ''user'', m_content = Some ''hi'',
                tool_calls = None, tool_call_id = None\<rparr>])"
  by (simp add: chatParams_def addSystemInstruction_def instructionGiven_def
        systemContentOf_def convertContent_def textPart_def mapRole_def)

section \<open>Message converter: tool turns\<close>

lemma map_zip_upt:
  "map (\<lambda>(i, x). f i x) (zip [n ..< n + length xs] xs) = map (\<lambda>k. f (n + k) (xs ! k)) [0 ..< length xs]"
  by (rule nth_equalityI) auto

lemma map_fst_zip_upt:
  "map (\<lambda>(i, x). g i) (zip [n ..< n + length xs] xs) = map g [n ..< n + length xs]"
  by (rule nth_equalityI) auto

lemma convertContentsToMessages_append:
  "convertContentsToMessages stringify rnd (xs @ ys) n =
     (let (ms0, n0) = convertContentsToMessages stringify rnd xs n;
          (ms1, n1) = convertContentsToMessages stringify rnd ys n0
      in (ms0 @ ms1, n1))"
  by (induction xs arbitrary: n) (auto simp: Let_def split: prod.splits)

lemma messageIds_append: "messageIds (xs @ ys) = messageIds xs @ messageIds ys"
  by (simp add: messageIds_def)

lemma messageIds_results_aux:
  "messageIds (map (\<lambda>(i, part). toolResultOf stringify (g i) part) zs)
          = map (\<lambda>(i, part). g i) zs"
  by (induction zs) (auto simp: messageIds_def toolResultOf_def)

lemma tcp_id_calls_aux:
  "map tcp_id (map (\<lambda>(i, part). toolCallOf stringify (g i) part) zs)
          = map (\<lambda>(i, part). g i) zs"
  by (induction zs) (auto simp: toolCallOf_def)

lemma convertContent_ids:
  "messageIds (fst (convertContent stringify rnd turn n))
     = map (newCallId rnd) [n ..< snd (convertContent stringify rnd turn n)]
   \<and> n \<le> snd (convertContent stringify rnd turn n)"
proof -
  let ?fcs = "filter (\<lambda>part. functionCall part \<noteq> None) (parts turn)"
  let ?frs = "filter (\<lambda>part. functionResponse part \<noteq> None) (parts turn)"
  have calls: "map tcp_id (map (\<lambda>(i, part). toolCallOf stringify (newCallId rnd i) part) (zip [n ..< n + length ?fcs] ?fcs))
      = map (newCallId rnd) [n ..< n + length ?fcs]"
    by (simp only: tcp_id_calls_aux map_fst_zip_upt)
  have res: "messageIds (map (\<lambda>(i, part). toolResultOf stringify (newCallId rnd i) part) (zip [n + length ?fcs ..< n + length ?fcs + length ?frs] ?frs))
      = map (newCallId rnd) [n + length ?fcs ..< n + length ?fcs + length ?frs]"
    by (simp only: messageIds_results_aux map_fst_zip_upt)
  have split: "[n ..< n + length ?fcs + length ?frs] = [n ..< n + length ?fcs] @ [n + length ?fcs ..< n + length ?fcs + length ?frs]"
    by (metis le_add1 upt_add_eq_append)
  show ?thesis
  proof (cases "list_ex (\<lambda>part. functionCall part \<noteq> None \<or> functionResponse part \<noteq> None) (parts turn)")
    case False
    then show ?thesis by (simp add: convertContent_def messageIds_def Let_def)
  next
    case True
    show ?thesis
    proof (cases "?fcs = []")
      case e: True
      show ?thesis
      proof (cases "?frs = []")
        case True
        with e \<open>list_ex _ _\<close> show ?thesis
          by (simp add: convertContent_def Let_def messageIds_def)
      next
        case False
        with e \<open>list_ex _ _\<close> res show ?thesis
          by (simp add: convertContent_def Let_def)
      qed
    next
      case ne: False
      show ?thesis
      proof (cases "?frs = []")
        case True
        with ne \<open>list_ex _ _\<close> calls show ?thesis
          by (simp add: convertContent_def Let_def messageIds_def)
      next
        case False
        with ne \<open>list_ex _ _\<close> calls res split show ?thesis
          by (simp add: convertContent_def Let_def messageIds_append) (simp add: messageIds_def)
      qed
    qed
  qed
qed


lemma convertContentsToMessages_ids:
  "messageIds (fst (convertContentsToMessages stringify rnd cs n))
     = map (newCallId rnd) [n ..< snd (convertContentsToMessages stringify rnd cs n)]
   \<and> n \<le> snd (convertContentsToMessages stringify rnd cs n)"
proof (induction cs arbitrary: n)
  case Nil
  show ?case by (simp add: messageIds_def)
next
  case (Cons c cs)
  obtain ms n1 where c: "convertContent stringify rnd c n = (ms, n1)" by fastforce
  obtain rest n2 where r: "convertContentsToMessages stringify rnd cs n1 = (rest, n2)" by fastforce
  from convertContent_ids[of stringify rnd c n] c
  have 1: "messageIds ms = map (newCallId rnd) [n ..< n1]" and 2: "n \<le> n1" by simp_all
  from Cons.IH[of n1] r
  have 3: "messageIds rest = map (newCallId rnd) [n1 ..< n2]" and 4: "n1 \<le> n2" by simp_all
  have "[n ..< n2] = [n ..< n1] @ [n1 ..< n2]"
    using 2 4 by (metis le_Suc_ex upt_add_eq_append)
  with 1 2 3 4 c r show ?case by (simp add: messageIds_append)
qed

lemma distinct_newCallIds:
  "distinct (map (newCallId rnd) [n ..< m]) \<longleftrightarrow> inj_on rnd {n ..< m}"
  by (simp add: distinct_map newCallId_def inj_on_def)

lemma convertContent_tool_turn_eq:
  assumes "filter (\<lambda>part. functionCall part \<noteq> None) (parts turn) \<noteq> []"
  shows "convertContent stringify rnd turn n =
     (\<lparr>m_role = ''assistant'',
        m_content =
          (if filter (\<lambda>part. truthy (part_text part)) (parts turn) = [] then None
           else Some (join [CHR 0x0A]
                   (map (\<lambda>part. the (part_text part))
                      (filter (\<lambda>part. truthy (part_text part)) (parts turn))))),
        tool_calls =
          Some (map (\<lambda>k. \<lparr>tcp_id = ''call_'' @ rnd (n + k), tcp_type = ''function'',
                           tcp_function =
                             \<lparr>tcf_name = fc_name (the (functionCall
                                  (filter (\<lambda>part. functionCall part \<noteq> None) (parts turn) ! k))),
                              tcf_arguments = stringify (fc_args (the (functionCall
                                  (filter (\<lambda>part. functionCall part \<noteq> None) (parts turn) ! k))))\<rparr>\<rparr>)
                  [0 ..< length (filter (\<lambda>part. functionCall part \<noteq> None) (parts turn))]),
        tool_call_id = None\<rparr>
      # map (\<lambda>j. \<lparr>m_role = ''tool'',
                   m_content = Some (stringify (fr_response (the (functionResponse
                       (filter (\<lambda>part. functionResponse part \<noteq> None) (parts turn) ! j))))),
                   tool_calls = None,
                   tool_call_id =
                     Some (''call_'' @ rnd (n + length (filter (\<lambda>part. functionCall part \<noteq> None) (parts turn)) + j))\<rparr>)
          [0 ..< length (filter (\<lambda>part. functionResponse part \<noteq> None) (parts turn))],
      n + length (filter (\<lambda>part. functionCall part \<noteq> None) (parts turn))
        + length (filter (\<lambda>part. functionResponse part \<noteq> None) (parts turn)))"
proof -
  let ?tps = "filter (\<lambda>part. truthy (part_text part)) (parts turn)"
  let ?fcs = "filter (\<lambda>part. functionCall part \<noteq> None) (parts turn)"
  let ?frs = "filter (\<lambda>part. functionResponse part \<noteq> None) (parts turn)"
  have ex: "list_ex (\<lambda>part. functionCall part \<noteq> None \<or> functionResponse part \<noteq> None) (parts turn)"
    using assms by (auto simp: list_ex_iff filter_empty_conv)
  have texts: "map textOf ?tps = map (\<lambda>part. the (part_text part)) ?tps"
    by (rule map_cong) (auto simp: textOf_def split: option.splits)
  have nonempty: "?tps \<noteq> [] \<Longrightarrow> join [CHR 0x0A] (map (\<lambda>part. the (part_text part)) ?tps) \<noteq> []"
  proof -
    assume "?tps \<noteq> []"
    then obtain p ps where ps: "?tps = p # ps" by (cases ?tps) auto
    then have "p \<in> set ?tps" by simp
    then have "the (part_text p) \<noteq> []" by (cases "part_text p") auto
    then show ?thesis using ps by (cases ps) auto
  qed
  have body: "orNull (join [CHR 0x0A] (map textOf ?tps))
      = (if ?tps = [] then None else Some (join [CHR 0x0A] (map (\<lambda>part. the (part_text part)) ?tps)))"
    using nonempty by (auto simp: orNull_def texts)
  have calls:
    "map (\<lambda>(i, part). toolCallOf stringify (newCallId rnd i) part) (zip [n ..< n + length ?fcs] ?fcs)
       = map (\<lambda>k. \<lparr>tcp_id = ''call_'' @ rnd (n + k), tcp_type = ''function'',
                     tcp_function =
                       \<lparr>tcf_name = fc_name (the (functionCall (?fcs ! k))),
                        tcf_arguments = stringify (fc_args (the (functionCall (?fcs ! k))))\<rparr>\<rparr>)
           [0 ..< length ?fcs]"
    unfolding map_zip_upt by (simp add: toolCallOf_def newCallId_def)
  have results:
    "map (\<lambda>(i, part). toolResultOf stringify (newCallId rnd i) part)
        (zip [n + length ?fcs ..< n + length ?fcs + length ?frs] ?frs)
       = map (\<lambda>j. \<lparr>m_role = ''tool'',
                     m_content = Some (stringify (fr_response (the (functionResponse (?frs ! j))))),
                     tool_calls = None,
                     tool_call_id = Some (''call_'' @ rnd (n + length ?fcs + j))\<rparr>)
           [0 ..< length ?frs]"
    unfolding map_zip_upt by (simp add: toolResultOf_def newCallId_def)
  have "convertContent stringify rnd turn n =
      ([\<lparr>m_role = ''assistant'',
         m_content = orNull (join [CHR 0x0A] (map textOf ?tps)),
         tool_calls = Some (map (\<lambda>(i, part). toolCallOf stringify (newCallId rnd i) part)
                              (zip [n ..< n + length ?fcs] ?fcs)),
         tool_call_id = None\<rparr>]
       @ (if length ?frs > 0
          then map (\<lambda>(i, part). toolResultOf stringify (newCallId rnd i) part)
                 (zip [n + length ?fcs ..< n + length ?fcs + length ?frs] ?frs)
          else []),
       n + length ?fcs + length ?frs)"
    using ex assms by (simp add: convertContent_def Let_def)
  also have "(if length ?frs > 0
          then map (\<lambda>(i, part). toolResultOf stringify (newCallId rnd i) part)
                 (zip [n + length ?fcs ..< n + length ?fcs + length ?frs] ?frs)
          else []) = map (\<lambda>(i, part). toolResultOf stringify (newCallId rnd i) part)
                 (zip [n + length ?fcs ..< n + length ?fcs + length ?frs] ?frs)"
    by simp
  finally show ?thesis
    unfolding body calls results by simp
qed


text \<open>
  C3, as amended.  For every Content turn with at least one function-call part, the
  converter emits one assistant message whose body is the non-empty texts of the turn
  joined with newline, or \<open>null\<close> (never the empty string) when there is none.  It
  carries exactly one tool-invocation record per function-call part, in order, holding
  the function name, the arguments serialized by \<open>JSON.stringify\<close> and the identifier
  \<open>call_\<close> followed by the next draw of the random source.  It is followed by one
  tool-result message per function-response part.  These messages stand in the sequence
  at the place of the turn.  The identifiers of a request are the draws it consumed, in
  order, so they are pairwise distinct exactly when these draws are.
\<close>

theorem convertContentsToMessages_tool_turn:
  fixes turn :: Content
  defines "tps \<equiv> filter (\<lambda>part. truthy (part_text part)) (parts turn)"
    and "fcs \<equiv> filter (\<lambda>part. functionCall part \<noteq> None) (parts turn)"
    and "frs \<equiv> filter (\<lambda>part. functionResponse part \<noteq> None) (parts turn)"
  assumes "fcs \<noteq> []"
  shows
    "convertContent stringify rnd turn n =
       (\<lparr>m_role = ''assistant'',
          m_content =
            (if tps = [] then None
             else Some (join [CHR 0x0A] (map (\<lambda>part. the (part_text part)) tps))),
          tool_calls =
            Some (map (\<lambda>k. \<lparr>tcp_id = ''call_'' @ rnd (n + k), tcp_type = ''function'',
                             tcp_function =
                               \<lparr>tcf_name = fc_name (the (functionCall (fcs ! k))),
                                tcf_arguments = stringify (fc_args (the (functionCall (fcs ! k))))\<rparr>\<rparr>)
                    [0 ..< length fcs]),
          tool_call_id = None\<rparr>
        # map (\<lambda>j. \<lparr>m_role = ''tool'',
                     m_content = Some (stringify (fr_response (the (functionResponse (frs ! j))))),
                     tool_calls = None,
                     tool_call_id = Some (''call_'' @ rnd (n + length fcs + j))\<rparr>)
            [0 ..< length frs],
        n + length fcs + length frs)
     \<and> convertContentsToMessages stringify rnd (before @ turn # after) n0 =
         (fst (convertContentsToMessages stringify rnd before n0)
          @ fst (convertContent stringify rnd turn
                   (snd (convertContentsToMessages stringify rnd before n0)))
          @ fst (convertContentsToMessages stringify rnd after
                   (snd (convertContent stringify rnd turn
                      (snd (convertContentsToMessages stringify rnd before n0))))),
          snd (convertContentsToMessages stringify rnd after
                 (snd (convertContent stringify rnd turn
                    (snd (convertContentsToMessages stringify rnd before n0))))))
     \<and> messageIds (fst (convertContentsToMessages stringify rnd cs n0))
         = map (\<lambda>i. ''call_'' @ rnd i)
             [n0 ..< snd (convertContentsToMessages stringify rnd cs n0)]
     \<and> (distinct (messageIds (fst (convertContentsToMessages stringify rnd cs n0)))
          \<longleftrightarrow> inj_on rnd {n0 ..< snd (convertContentsToMessages stringify rnd cs n0)})"
proof -
  have turn_eq: "convertContent stringify rnd turn n =
       (\<lparr>m_role = ''assistant'',
          m_content =
            (if tps = [] then None
             else Some (join [CHR 0x0A] (map (\<lambda>part. the (part_text part)) tps))),
          tool_calls =
            Some (map (\<lambda>k. \<lparr>tcp_id = ''call_'' @ rnd (n + k), tcp_type = ''function'',
                             tcp_function =
                               \<lparr>tcf_name = fc_name (the (functionCall (fcs ! k))),
                                tcf_arguments = stringify (fc_args (the (functionCall (fcs ! k))))\<rparr>\<rparr>)
                    [0 ..< length fcs]),
          tool_call_id = None\<rparr>
        # map (\<lambda>j. \<lparr>m_role = ''tool'',
                     m_content = Some (stringify (fr_response (the (functionResponse (frs ! j))))),
                     tool_calls = None,
                     tool_call_id = Some (''call_'' @ rnd (n + length fcs + j))\<rparr>)
            [0 ..< length frs],
        n + length fcs + length frs)"
    using assms(4) convertContent_tool_turn_eq[of turn stringify rnd n]
    unfolding tps_def fcs_def frs_def by simp
  have placed: "convertContentsToMessages stringify rnd (before @ turn # after) n0 =
         (fst (convertContentsToMessages stringify rnd before n0)
          @ fst (convertContent stringify rnd turn
                   (snd (convertContentsToMessages stringify rnd before n0)))
          @ fst (convertContentsToMessages stringify rnd after
                   (snd (convertContent stringify rnd turn
                      (snd (convertContentsToMessages stringify rnd before n0))))),
          snd (convertContentsToMessages stringify rnd after
                 (snd (convertContent stringify rnd turn
                    (snd (convertContentsToMessages stringify rnd before n0))))))"
    by (simp add: convertContentsToMessages_append Let_def split: prod.splits)
  have ids: "messageIds (fst (convertContentsToMessages stringify rnd cs n0))
         = map (\<lambda>i. ''call_'' @ rnd i)
             [n0 ..< snd (convertContentsToMessages stringify rnd cs n0)]"
    using convertContentsToMessages_ids[of stringify rnd cs n0]
    by (simp add: newCallId_def[abs_def])
  have "distinct (messageIds (fst (convertContentsToMessages stringify rnd cs n0)))
          \<longleftrightarrow> inj_on rnd {n0 ..< snd (convertContentsToMessages stringify rnd cs n0)}"
    using convertContentsToMessages_ids[of stringify rnd cs n0]
    by (simp add: distinct_newCallIds)
  with turn_eq placed ids show ?thesis by blast
qed

theorem convertContentsToMessages_tool_turn_witness:
  "filter (\<lambda>part. functionCall part \<noteq> None)
     (parts \<lparr>role = ''model'', parts = [functionCallPart (Some ''lookup'') sampleArgs]\<rparr>) \<noteq> []
   \<and> convertContentsToMessages sampleStringify (\<lambda>i. ''4fzyo82mv'')
        [\<lparr>role = ''model'', parts = [functionCallPart (Some ''lookup'') sampleArgs]\<rparr>] 0
      = ([\<lparr>m_role = ''assistant'', m_content = None,
            tool_calls = Some [\<lparr>tcp_id = ''call_4fzyo82mv'', tcp_type = ''function'',
                                tcp_function = \<lparr>tcf_name = Some ''lookup'',
                                                tcf_arguments = sampleArgsText\<rparr>\<rparr>],
            tool_call_id = None\<rparr>], 1)"
  using convertContentsToMessages_tool_turn
    [of "\<lparr>role = ''model'', parts = [functionCallPart (Some ''lookup'') sampleArgs]\<rparr>"
        sampleStringify "\<lambda>i. ''4fzyo82mv''" 0 "[]" "[]" 0 "[]"]
  by (simp add: functionCallPart_def sampleStringify_def)

text \<open>Nothing makes the draws differ: when the random source yields the same nine
  characters twice, two invocations of one message carry the same identifier.\<close>

theorem convertContentsToMessages_ids_counterexample:
  "map (\<lambda>m. map_option (map tcp_id) (tool_calls m))
     (fst (convertContentsToMessages sampleStringify (\<lambda>i. ''4fzyo82mv'')
        [\<lparr>role = ''model'',
          parts = [functionCallPart (Some ''lookup'') sampleArgs,
                   functionCallPart (Some ''fetch'') (JObj [])]\<rparr>] 0))
   = [Some [''call_4fzyo82mv'', ''call_4fzyo82mv'']]"
  by (simp add: convertContent_def functionCallPart_def toolCallOf_def newCallId_def Let_def
        upt_rec numeral_2_eq_2)

section \<open>Stream accumulator: the snapshots of a stream\<close>

lemma createStreamResponse_text:
  "t \<noteq> [] \<Longrightarrow> createStreamResponse parse t False None = Inr (textSnapshot t)"
  by (simp add: createStreamResponse_def textSnapshot_def)

lemma textSnapshots_Nil: "textSnapshots acc [] = []"
  by (simp add: textSnapshots_def)

lemma prefixes_first: "prefixes xs = [] # filter (\<lambda>p. p \<noteq> []) (prefixes xs)"
  by (cases xs) (simp_all add: filter_map comp_def)

lemma filter_prefixes_Cons:
  "filter (\<lambda>p. truthy (chunkContent (last (c # p)))) (prefixes cs) =
     (if truthy (chunkContent c) then [[]] else [])
     @ filter (\<lambda>p. p \<noteq> [] \<and> truthy (chunkContent (last p))) (prefixes cs)"
proof -
  have "filter (\<lambda>p. truthy (chunkContent (last (c # p)))) (prefixes cs)
      = filter (\<lambda>p. truthy (chunkContent (last (c # p)))) ([] # filter (\<lambda>p. p \<noteq> []) (prefixes cs))"
    using prefixes_first[of cs] by simp
  also have "\<dots> = (if truthy (chunkContent c) then [[]] else [])
      @ filter (\<lambda>p. p \<noteq> [] \<and> truthy (chunkContent (last (c # p)))) (prefixes cs)"
    by simp
  also have "filter (\<lambda>p. p \<noteq> [] \<and> truthy (chunkContent (last (c # p)))) (prefixes cs)
      = filter (\<lambda>p. p \<noteq> [] \<and> truthy (chunkContent (last p))) (prefixes cs)"
    by (rule filter_cong) auto
  finally show ?thesis .
qed

lemma textSnapshots_Cons:
  "textSnapshots acc (c # cs) =
     (if truthy (chunkContent c) then [textSnapshot (acc @ deltaText c)] else [])
     @ textSnapshots (acc @ deltaText c) cs"
proof -
  have "filter (\<lambda>p. p \<noteq> [] \<and> truthy (chunkContent (last p))) (prefixes (c # cs))
      = map ((#) c) (filter (\<lambda>p. truthy (chunkContent (last (c # p)))) (prefixes cs))"
    by (simp add: filter_map comp_def)
  then show ?thesis
    unfolding textSnapshots_def filter_prefixes_Cons by (simp add: comp_def)
qed

lemma textSnapshots_single:
  "textSnapshots acc [c] = (if truthy (chunkContent c) then [textSnapshot (acc @ deltaText c)] else [])"
  by (simp add: textSnapshots_Cons textSnapshots_Nil)

lemma deltaText_nonempty: "truthy (chunkContent c) \<Longrightarrow> deltaText c \<noteq> []"
  by (cases "chunkContent c") (auto simp: deltaText_def)

lemma streamLoop_step_text:
  "(if truthy (chunkContent c)
    then map_sum id (\<lambda>r. [r]) (createStreamResponse parse (acc @ deltaText c) False None)
    else Inr [])
   = Inr (if truthy (chunkContent c) then [textSnapshot (acc @ deltaText c)] else [])"
  by (simp add: createStreamResponse_text deltaText_nonempty)

lemma streamLoop_Cons:
  "streamLoop parse acc tcs (c # rest) fail =
     (if truthy (chunkFinishReason c)
      then (case createStreamResponse parse (acc @ deltaText c) True (Some (tcs @ fragments c)) of
              Inl e \<Rightarrow> (textSnapshots acc [c], Some e)
            | Inr r \<Rightarrow> (textSnapshots acc [c] @ [r], None))
      else (textSnapshots acc [c] @ fst (streamLoop parse (acc @ deltaText c) (tcs @ fragments c) rest fail),
            snd (streamLoop parse (acc @ deltaText c) (tcs @ fragments c) rest fail)))"
proof -
  have a: "(if truthy (chunkContent c) then acc @ the (chunkContent c) else acc) = acc @ deltaText c"
    by (simp add: deltaText_def)
  have f: "(case chunkToolCalls c of Some ts \<Rightarrow> tcs @ ts | None \<Rightarrow> tcs) = tcs @ fragments c"
    by (simp add: fragments_def split: option.splits)
  show ?thesis
    by (simp add: Let_def a f streamLoop_step_text textSnapshots_Cons textSnapshots_Nil
          split: prod.splits sum.splits)
qed

lemma streamLoop_prefix:
  "\<forall>c \<in> set pre. \<not> truthy (chunkFinishReason c) \<Longrightarrow>
   streamLoop parse acc tcs (pre @ rest) fail =
     (textSnapshots acc pre
        @ fst (streamLoop parse (acc @ concat (map deltaText pre)) (tcs @ concat (map fragments pre)) rest fail),
      snd (streamLoop parse (acc @ concat (map deltaText pre)) (tcs @ concat (map fragments pre)) rest fail))"
proof (induction pre arbitrary: acc tcs)
  case Nil
  show ?case by (simp add: textSnapshots_Nil)
next
  case (Cons c pre)
  then have nf: "\<not> truthy (chunkFinishReason c)" and rest: "\<forall>c \<in> set pre. \<not> truthy (chunkFinishReason c)"
    by simp_all
  show ?case
    using Cons.IH[OF rest, of "acc @ deltaText c" "tcs @ fragments c"] nf
    by (simp add: streamLoop_Cons textSnapshots_Cons[of acc c pre] textSnapshots_single
          del: streamLoop.simps)
qed

lemma streamLoop_no_finish:
  "\<forall>c \<in> set chunks. \<not> truthy (chunkFinishReason c) \<Longrightarrow>
   streamLoop parse acc tcs chunks fail = (textSnapshots acc chunks, fail)"
  using streamLoop_prefix[of chunks parse acc tcs "[]" fail] by simp


lemma streamToolCallParts_ok:
  "\<forall>tc \<in> set tcs. isFunctionFragment tc \<longrightarrow> fragmentOk parse tc \<Longrightarrow>
   streamToolCallParts parse tcs = Inr (map (fragmentPart parse) (filter isFunctionFragment tcs))"
proof (induction tcs)
  case Nil
  show ?case by simp
next
  case (Cons tc tcs)
  then have ih: "streamToolCallParts parse tcs = Inr (map (fragmentPart parse) (filter isFunctionFragment tcs))"
    by simp
  show ?case
  proof (cases "isFunctionFragment tc")
    case False
    then have "dtc_type tc \<noteq> Some ''function''" by (simp add: isFunctionFragment_def)
    with ih False show ?thesis by simp
  next
    case True
    then have ty: "dtc_type tc = Some ''function''" by (simp add: isFunctionFragment_def)
    from True Cons.prems have ok: "fragmentOk parse tc" by simp
    then obtain f where f: "dtc_function tc = Some f"
      and p: "\<not> isl (parse (argumentsOrEmpty (df_arguments f)))"
      by (auto simp: fragmentOk_def split: option.splits)
    from p obtain a where a: "parse (argumentsOrEmpty (df_arguments f)) = Inr a"
      by (cases "parse (argumentsOrEmpty (df_arguments f))") auto
    from True ty f a ih show ?thesis
      by (simp add: fragmentPart_def)
  qed
qed


lemma createStreamResponse_final:
  "createStreamResponse parse t True (Some tcs) =
     (case streamToolCallParts parse tcs of
        Inl e \<Rightarrow> Inl e
      | Inr fps \<Rightarrow> Inr (terminalSnapshot t fps))"
  by (cases tcs) (simp_all add: createStreamResponse_def terminalSnapshot_def split: sum.splits)

lemma textSnapshots_append:
  "textSnapshots acc (xs @ ys) = textSnapshots acc xs @ textSnapshots (acc @ concat (map deltaText xs)) ys"
  by (induction xs arbitrary: acc) (simp_all add: textSnapshots_Nil textSnapshots_Cons)

lemma streamLoop_terminal:
  assumes "\<forall>c \<in> set pre. \<not> truthy (chunkFinishReason c)" and "truthy (chunkFinishReason t)"
  shows "streamLoop parse [] [] (pre @ t # post) fail =
     (case streamToolCallParts parse (concat (map fragments (pre @ [t]))) of
        Inl e \<Rightarrow> (textSnapshots [] (pre @ [t]), Some e)
      | Inr fps \<Rightarrow>
          (textSnapshots [] (pre @ [t]) @ [terminalSnapshot (concat (map deltaText (pre @ [t]))) fps],
           None))"
proof -
  have ts: "textSnapshots [] (pre @ [t]) = textSnapshots [] pre @ textSnapshots (concat (map deltaText pre)) [t]"
    by (simp add: textSnapshots_append)
  show ?thesis
    using assms(2)
    by (simp add: streamLoop_prefix[OF assms(1)] streamLoop_Cons createStreamResponse_final ts
          del: streamLoop.simps split: sum.splits)
qed


lemma length_textSnapshots:
  "length (textSnapshots acc cs) = length (filter (\<lambda>c. truthy (chunkContent c)) cs)"
  by (induction cs arbitrary: acc) (simp_all add: textSnapshots_Nil textSnapshots_Cons)

lemma textSnapshots_members:
  "r \<in> set (textSnapshots acc cs) \<Longrightarrow> \<exists>t. t \<noteq> [] \<and> r = textSnapshot t"
proof (induction cs arbitrary: acc)
  case Nil
  then show ?case by (simp add: textSnapshots_Nil)
next
  case (Cons c cs)
  then show ?case
    using deltaText_nonempty[of c]
    by (auto simp: textSnapshots_Cons split: if_splits)
qed

lemma chunk_reads:
  "chunkContent (textChunk s) = Some s" "chunkFinishReason (textChunk s) = None"
  "chunkToolCalls (textChunk s) = None"
  "chunkContent (toolChunk tcs) = None" "chunkFinishReason (toolChunk tcs) = None"
  "chunkToolCalls (toolChunk tcs) = Some tcs"
  "chunkContent (finishChunk r) = None" "chunkFinishReason (finishChunk r) = Some r"
  "chunkToolCalls (finishChunk r) = None"
  by (simp_all add: textChunk_def toolChunk_def finishChunk_def chunkContent_def
        chunkFinishReason_def chunkToolCalls_def chunkDelta_def)

text \<open>
  C5, as amended.  Take an event sequence whose first event with a finish reason is \<open>t\<close>,
  after the events \<open>pre\<close>, and suppose that every buffered fragment of type \<open>function\<close>
  has its \<open>function\<close> field and arguments that parse.  Then \<open>generateContentStream\<close>
  yields, for each event up to \<open>t\<close> with a non-empty text delta, a snapshot whose single
  part is the whole text accumulated so far, with \<open>finishReason\<close> unset (the events
  without one, such as those with tool-call fragments only, yield none); then one final
  snapshot holding the accumulated text (if any) and one function-call part per buffered
  fragment of type \<open>function\<close>, with \<open>finishReason\<close> \<open>stop\<close> and index 0; and nothing
  after it, whatever events follow \<open>t\<close>.
\<close>

theorem generateContentStream_snapshots:
  assumes "\<forall>c \<in> set pre. \<not> truthy (chunkFinishReason c)"
    and "truthy (chunkFinishReason t)"
    and "\<forall>tc \<in> set (concat (map fragments (pre @ [t]))). isFunctionFragment tc \<longrightarrow> fragmentOk parse tc"
    and "screate (chatParams stringify rnd request n (Some True))
           = Inr \<lparr>events = pre @ t # post, failure = fail\<rparr>"
  shows "generateContentStream parse stringify rnd screate request n =
     (textSnapshots [] (pre @ [t])
        @ [terminalSnapshot (concat (map deltaText (pre @ [t])))
             (map (fragmentPart parse)
                (filter isFunctionFragment (concat (map fragments (pre @ [t])))))],
      None)
   \<and> length (textSnapshots [] (pre @ [t]))
       = length (filter (\<lambda>c. truthy (chunkContent c)) (pre @ [t]))"
proof -
  have "streamToolCallParts parse (concat (map fragments (pre @ [t])))
      = Inr (map (fragmentPart parse)
               (filter isFunctionFragment (concat (map fragments (pre @ [t])))))"
    using assms(3) by (rule streamToolCallParts_ok)
  with streamLoop_terminal[OF assms(1,2), of parse post fail] assms(4)
  show ?thesis
    by (simp add: generateContentStream_def generateContentStreamInternal_def
          length_textSnapshots del: streamLoop.simps)
qed

theorem generateContentStream_snapshots_witness:
  "map (\<lambda>c. truthy (chunkFinishReason c))
       [textChunk ''Hel'',
        toolChunk [\<lparr>dtc_index = 0, dtc_id = Some ''call_1'', dtc_type = Some ''function'',
                    dtc_function = Some \<lparr>df_name = Some ''lookup'',
                                          df_arguments = Some sampleArgsText\<rparr>\<rparr>],
        textChunk ''lo''] = [False, False, False]
   \<and> truthy (chunkFinishReason (finishChunk ''stop''))
   \<and> generateContentStream sampleParse sampleStringify (\<lambda>i. ''4fzyo82mv'')
        (\<lambda>p. Inr \<lparr>events =
                     [textChunk ''Hel'',
                      toolChunk [\<lparr>dtc_index = 0, dtc_id = Some ''call_1'',
                                  dtc_type = Some ''function'',
                                  dtc_function = Some \<lparr>df_name = Some ''lookup'',
                                                        df_arguments = Some sampleArgsText\<rparr>\<rparr>],
                      textChunk ''lo'',
                      finishChunk ''stop'',
                      textChunk ''never read''],
                   failure = None\<rparr>)
        sampleRequest 0
      = ([textSnapshot ''Hel'', textSnapshot ''Hello'',
          terminalSnapshot ''Hello'' [functionCallPart (Some ''lookup'') sampleArgs]], None)"
  using generateContentStream_snapshots
    [of "[textChunk ''Hel'',
          toolChunk [\<lparr>dtc_index = 0, dtc_id = Some ''call_1'', dtc_type = Some ''function'',
                      dtc_function = Some \<lparr>df_name = Some ''lookup'',
                                            df_arguments = Some sampleArgsText\<rparr>\<rparr>],
          textChunk ''lo'']"
        "finishChunk ''stop''" sampleParse
        "\<lambda>p. Inr \<lparr>events =
                     [textChunk ''Hel'',
                      toolChunk [\<lparr>dtc_index = 0, dtc_id = Some ''call_1'',
                                  dtc_type = Some ''function'',
                                  dtc_function = Some \<lparr>df_name = Some ''lookup'',
                                                        df_arguments = Some sampleArgsText\<rparr>\<rparr>],
                      textChunk ''lo'',
                      finishChunk ''stop'',
                      textChunk ''never read''],
                   failure = None\<rparr>"
        sampleStringify "\<lambda>i. ''4fzyo82mv''" sampleRequest 0 "[textChunk ''never read'']" None]
  by (simp add: chunk_reads fragments_def deltaText_def isFunctionFragment_def fragmentOk_def
        fragmentPart_def argumentsOrEmpty_def sampleParse_def sampleArgsText_def
        textSnapshots_Cons textSnapshots_Nil)

text \<open>The claim as stated gives every buffered fragment a function-call part, and every
  text delta a snapshot.  The backend opens a stream with an empty text delta, which
  yields no snapshot, and sends the arguments of one call in several fragments, of which
  only the first has a \<open>type\<close>: of the two fragments buffered here, the final snapshot
  holds one part, with the arguments of the first fragment (none).\<close>

theorem generateContentStream_fragments_counterexample:
  "generateContentStream sampleParse sampleStringify (\<lambda>i. ''4fzyo82mv'')
        (\<lambda>p. Inr \<lparr>events =
                     [textChunk '''',
                      toolChunk [\<lparr>dtc_index = 0, dtc_id = Some ''call_1'',
                                  dtc_type = Some ''function'',
                                  dtc_function = Some \<lparr>df_name = Some ''lookup'',
                                                        df_arguments = Some ''''\<rparr>\<rparr>],
                      toolChunk [\<lparr>dtc_index = 0, dtc_id = None, dtc_type = None,
                                  dtc_function = Some \<lparr>df_name = None,
                                                        df_arguments = Some sampleArgsText\<rparr>\<rparr>],
                      finishChunk ''tool_calls''],
                   failure = None\<rparr>)
        sampleRequest 0
      = ([\<lparr>candidates =
             Some [\<lparr>content = \<lparr>role = ''model'',
                                parts = [functionCallPart (Some ''lookup'') (JObj [])]\<rparr>,
                    finishReason = Some ''stop'', index = Some 0\<rparr>],
           usageMetadata = None\<rparr>], None)"
  by (simp add: generateContentStream_def generateContentStreamInternal_def chunk_reads
        createStreamResponse_def argumentsOrEmpty_def sampleParse_def)

text \<open>
  C10.  When no event of the stream has a finish reason, \<open>generateContentStream\<close> yields
  the snapshots of the text deltas and nothing else, and then ends as the stream does
  (normally, or with the wrapped error of the stream).  Each snapshot holds one text part
  and no \<open>finishReason\<close>: there is no terminal snapshot, and no buffered tool-call
  fragment reaches the caller.
\<close>

theorem generateContentStream_no_finish:
  assumes "\<forall>c \<in> set chunks. \<not> truthy (chunkFinishReason c)"
    and "screate (chatParams stringify rnd request n (Some True))
           = Inr \<lparr>events = chunks, failure = fail\<rparr>"
  shows "generateContentStream parse stringify rnd screate request n
           = (textSnapshots [] chunks, map_option wrapError fail)
   \<and> (\<forall>r \<in> set (fst (generateContentStream parse stringify rnd screate request n)).
         \<exists>t. t \<noteq> [] \<and>
           r = \<lparr>candidates = Some [\<lparr>content = \<lparr>role = ''model'', parts = [textPart t]\<rparr>,
                                   finishReason = None, index = Some 0\<rparr>],
                usageMetadata = None\<rparr>)"
proof -
  have eq: "generateContentStream parse stringify rnd screate request n
           = (textSnapshots [] chunks, map_option wrapError fail)"
    using assms(2) streamLoop_no_finish[OF assms(1), of parse "[]" "[]" fail]
    by (simp add: generateContentStream_def generateContentStreamInternal_def
          del: streamLoop.simps)
  show ?thesis
    unfolding eq using textSnapshots_members[of _ "[]" chunks]
    by (auto simp: textSnapshot_def)
qed


theorem generateContentStream_no_finish_witness:
  "map (\<lambda>c. truthy (chunkFinishReason c))
       [textChunk ''Hel'',
        toolChunk [\<lparr>dtc_index = 0, dtc_id = Some ''call_1'', dtc_type = Some ''function'',
                    dtc_function = Some \<lparr>df_name = Some ''lookup'',
                                          df_arguments = Some sampleArgsText\<rparr>\<rparr>],
        textChunk ''lo''] = [False, False, False]
   \<and> generateContentStream sampleParse sampleStringify (\<lambda>i. ''4fzyo82mv'')
        (\<lambda>p. Inr \<lparr>events =
                     [textChunk ''Hel'',
                      toolChunk [\<lparr>dtc_index = 0, dtc_id = Some ''call_1'',
                                  dtc_type = Some ''function'',
                                  dtc_function = Some \<lparr>df_name = Some ''lookup'',
                                                        df_arguments = Some sampleArgsText\<rparr>\<rparr>],
                      textChunk ''lo''],
                   failure = None\<rparr>)
        sampleRequest 0
      = ([textSnapshot ''Hel'', textSnapshot ''Hello''], None)"
  using generateContentStream_no_finish
    [of "[textChunk ''Hel'',
          toolChunk [\<lparr>dtc_index = 0, dtc_id = Some ''call_1'', dtc_type = Some ''function'',
                      dtc_function = Some \<lparr>df_name = Some ''lookup'',
                                            df_arguments = Some sampleArgsText\<rparr>\<rparr>],
          textChunk ''lo'']"
        "\<lambda>p. Inr \<lparr>events =
                     [textChunk ''Hel'',
                      toolChunk [\<lparr>dtc_index = 0, dtc_id = Some ''call_1'',
                                  dtc_type = Some ''function'',
                                  dtc_function = Some \<lparr>df_name = Some ''lookup'',
                                                        df_arguments = Some sampleArgsText\<rparr>\<rparr>],
                      textChunk ''lo''],
                   failure = None\<rparr>"
        sampleStringify "\<lambda>i. ''4fzyo82mv''" sampleRequest 0 None sampleParse]
  by (simp add: chunk_reads deltaText_def textSnapshots_Cons textSnapshots_Nil)

section \<open>Response synthesizer: the candidate of a completion\<close>

lemma toolCallParts_ok:
  "\<forall>tc \<in> set tcs. isFunctionCall tc \<longrightarrow> toolCallOk parse tc \<Longrightarrow>
   toolCallParts parse tcs = Inr (map (toolCallPart parse) (filter isFunctionCall tcs))"
proof (induction tcs)
  case Nil
  show ?case by simp
next
  case (Cons tc tcs)
  then have ih: "toolCallParts parse tcs = Inr (map (toolCallPart parse) (filter isFunctionCall tcs))"
    by simp
  show ?case
  proof (cases "isFunctionCall tc")
    case False
    then have "tc_type tc \<noteq> ''function''" by (simp add: isFunctionCall_def)
    with ih False show ?thesis by simp
  next
    case True
    then have ty: "tc_type tc = ''function''" by (simp add: isFunctionCall_def)
    from True Cons.prems have "toolCallOk parse tc" by simp
    then obtain a where a: "parse (argumentsOrEmpty (Some (fn_arguments (tc_function tc)))) = Inr a"
      by (cases "parse (argumentsOrEmpty (Some (fn_arguments (tc_function tc))))")
         (auto simp: toolCallOk_def)
    from True ty a ih show ?thesis
      by (simp add: toolCallPart_def)
  qed
qed




lemma convertOpenAIResponseToGenAI_choice:
  "choices response = choice # others \<Longrightarrow>
   convertOpenAIResponseToGenAI parse response =
     (case toolCallParts parse (messageToolCalls choice) of
        Inl e \<Rightarrow> Inl e
      | Inr fps \<Rightarrow>
          Inr \<lparr>candidates =
                 Some [\<lparr>content =
                          \<lparr>role = ''model'',
                           parts = (if truthy (cm_content (message choice))
                                    then [textPart (the (cm_content (message choice)))] else [])
                                   @ fps\<rparr>,
                        finishReason = (if truthy (finish_reason choice)
                                        then finish_reason choice else None),
                        index = Some (choice_index choice)\<rparr>],
               usageMetadata =
                 Some \<lparr>promptTokenCount = map_option prompt_tokens (usage response),
                       candidatesTokenCount = map_option completion_tokens (usage response),
                       totalTokenCount = map_option total_tokens (usage response)\<rparr>\<rparr>)"
  by (simp add: convertOpenAIResponseToGenAI_def messageToolCalls_def Let_def
        split: option.splits sum.splits)

text \<open>
  C1, as amended.  For every backend completion with at least one choice, in which the
  arguments of every tool invocation of type \<open>function\<close> of the first choice parse as
  JSON, \<open>generateContent\<close> returns exactly one candidate, built from the first choice
  only.  Its parts are, in order, one text part if the message content is non-empty and
  one function-call part per tool invocation of type \<open>function\<close>; its role is \<open>model\<close>;
  its \<open>finishReason\<close> is the backend's finish reason, undefined if that is absent or
  empty; its index is the index the backend gave the first choice; and the usage metadata
  carries the three token counts of the backend when it supplies them (and is an object
  of undefined counts when it does not).
\<close>

theorem generateContent_first_choice:
  assumes "choices response = choice # others"
    and "\<forall>tc \<in> set (messageToolCalls choice). isFunctionCall tc \<longrightarrow> toolCallOk parse tc"
    and "create (chatParams stringify rnd request n None) = Inr response"
  shows "generateContent parse stringify rnd create request n =
     Inr \<lparr>candidates =
            Some [\<lparr>content =
                     \<lparr>role = ''model'',
                      parts = (if truthy (cm_content (message choice))
                               then [textPart (the (cm_content (message choice)))] else [])
                              @ map (toolCallPart parse)
                                  (filter isFunctionCall (messageToolCalls choice))\<rparr>,
                   finishReason = (if truthy (finish_reason choice)
                                   then finish_reason choice else None),
                   index = Some (choice_index choice)\<rparr>],
          usageMetadata =
            Some \<lparr>promptTokenCount = map_option prompt_tokens (usage response),
                  candidatesTokenCount = map_option completion_tokens (usage response),
                  totalTokenCount = map_option total_tokens (usage response)\<rparr>\<rparr>"
  using assms(3) toolCallParts_ok[OF assms(2)] convertOpenAIResponseToGenAI_choice[OF assms(1), of parse]
  by (simp add: generateContent_def)


theorem generateContent_first_choice_witness:
  "(let response =
      \<lparr>choices =
         [\<lparr>message =
             \<lparr>cm_content = Some ''Let me check.'',
              cm_tool_calls =
                Some [\<lparr>tc_id = ''call_1'', tc_type = ''function'',
                        tc_function = \<lparr>fn_name = ''lookup'', fn_arguments = sampleArgsText\<rparr>\<rparr>]\<rparr>,
           finish_reason = Some ''tool_calls'', choice_index = 0\<rparr>,
          \<lparr>message = \<lparr>cm_content = Some ''Another one'', cm_tool_calls = None\<rparr>,
           finish_reason = Some ''stop'', choice_index = 1\<rparr>],
       usage = Some \<lparr>prompt_tokens = 7, completion_tokens = 16, total_tokens = 23\<rparr>\<rparr>
    in map (\<lambda>tc. isFunctionCall tc \<and> toolCallOk sampleParse tc)
         (messageToolCalls (hd (choices response))) = [True]
       \<and> generateContent sampleParse sampleStringify (\<lambda>i. ''4fzyo82mv'') (\<lambda>p. Inr response)
            sampleRequest 0
          = Inr \<lparr>candidates =
                   Some [\<lparr>content =
                            \<lparr>role = ''model'',
                             parts = [textPart ''Let me check.'',
                                      functionCallPart (Some ''lookup'') sampleArgs]\<rparr>,
                          finishReason = Some ''tool_calls'', index = Some 0\<rparr>],
                 usageMetadata =
                   Some \<lparr>promptTokenCount = Some 7, candidatesTokenCount = Some 16,
                         totalTokenCount = Some 23\<rparr>\<rparr>)"
  using generateContent_first_choice
    [of "\<lparr>choices =
         [\<lparr>message =
             \<lparr>cm_content = Some ''Let me check.'',
              cm_tool_calls =
                Some [\<lparr>tc_id = ''call_1'', tc_type = ''function'',
                        tc_function = \<lparr>fn_name = ''lookup'', fn_arguments = sampleArgsText\<rparr>\<rparr>]\<rparr>,
           finish_reason = Some ''tool_calls'', choice_index = 0\<rparr>,
          \<lparr>message = \<lparr>cm_content = Some ''Another one'', cm_tool_calls = None\<rparr>,
           finish_reason = Some ''stop'', choice_index = 1\<rparr>],
       usage = Some \<lparr>prompt_tokens = 7, completion_tokens = 16, total_tokens = 23\<rparr>\<rparr>"
        "\<lparr>message =
             \<lparr>cm_content = Some ''Let me check.'',
              cm_tool_calls =
                Some [\<lparr>tc_id = ''call_1'', tc_type = ''function'',
                        tc_function = \<lparr>fn_name = ''lookup'', fn_arguments = sampleArgsText\<rparr>\<rparr>]\<rparr>,
           finish_reason = Some ''tool_calls'', choice_index = 0\<rparr>"
        "[\<lparr>message = \<lparr>cm_content = Some ''Another one'', cm_tool_calls = None\<rparr>,
           finish_reason = Some ''stop'', choice_index = 1\<rparr>]"
        sampleParse
        "\<lambda>p. Inr \<lparr>choices =
         [\<lparr>message =
             \<lparr>cm_content = Some ''Let me check.'',
              cm_tool_calls =
                Some [\<lparr>tc_id = ''call_1'', tc_type = ''function'',
                        tc_function = \<lparr>fn_name = ''lookup'', fn_arguments = sampleArgsText\<rparr>\<rparr>]\<rparr>,
           finish_reason = Some ''tool_calls'', choice_index = 0\<rparr>,
          \<lparr>message = \<lparr>cm_content = Some ''Another one'', cm_tool_calls = None\<rparr>,
           finish_reason = Some ''stop'', choice_index = 1\<rparr>],
       usage = Some \<lparr>prompt_tokens = 7, completion_tokens = 16, total_tokens = 23\<rparr>\<rparr>"
        sampleStringify "\<lambda>i. ''4fzyo82mv''" sampleRequest 0]
  by (simp add: messageToolCalls_def isFunctionCall_def toolCallOk_def toolCallPart_def
        argumentsOrEmpty_def sampleParse_def sampleArgsText_def)

text \<open>The index is copied from the choice, not set to 0: a first choice that the
  backend numbers 1 gives a candidate of index 1.  And a completion whose tool invocation
  has arguments that do not parse gives no candidate at all.\<close>

theorem generateContent_index_counterexample:
  "generateContent sampleParse sampleStringify (\<lambda>i. ''4fzyo82mv'')
     (\<lambda>p. Inr \<lparr>choices =
                  [\<lparr>message = \<lparr>cm_content = Some ''hi'', cm_tool_calls = None\<rparr>,
                    finish_reason = Some ''stop'', choice_index = 1\<rparr>],
                usage = None\<rparr>)
     sampleRequest 0
   = Inr \<lparr>candidates =
            Some [\<lparr>content = \<lparr>role = ''model'', parts = [textPart ''hi'']\<rparr>,
                   finishReason = Some ''stop'', index = Some 1\<rparr>],
          usageMetadata =
            Some \<lparr>promptTokenCount = None, candidatesTokenCount = None,
                  totalTokenCount = None\<rparr>\<rparr>
   \<and> generateContent sampleParse sampleStringify (\<lambda>i. ''4fzyo82mv'')
     (\<lambda>p. Inr \<lparr>choices =
                  [\<lparr>message =
                      \<lparr>cm_content = None,
                       cm_tool_calls =
                         Some [\<lparr>tc_id = ''call_1'', tc_type = ''function'',
                                 tc_function = \<lparr>fn_name = ''lookup'',
                                                fn_arguments = truncatedArgsText\<rparr>\<rparr>]\<rparr>,
                    finish_reason = Some ''tool_calls'', choice_index = 0\<rparr>],
                usage = None\<rparr>)
     sampleRequest 0
   = Inl (Error ''OpenAI API error: Unexpected end of JSON input'')"
  by (simp add: generateContent_def convertOpenAIResponseToGenAI_def argumentsOrEmpty_def
        sampleParse_def truncatedArgsText_def sampleArgsText_def wrapError_def)


section \<open>Malformed tool arguments\<close>





section \<open>Parts of the constructed contents\<close>





end
